theory Spec2Isabelle
  imports Complex_Main "HOL-Library.Multiset" "HOL-Library.Word"
begin

section \<open>Numbers\<close>

text \<open>
  The source computes on JavaScript numbers. They are modelled as exact reals; Unix
  timestamps and drive identifiers are integers. A value that the source can make
  non-finite (a quotient whose divisor may be zero, the minimum of an empty list) has type
  \<open>jsnum\<close>, so that \<open>Infinity\<close> and \<open>NaN\<close> are values of the model and not the
  \<open>x / 0 = 0\<close> of HOL. Where a branch of the source compares a quotient computed in
  double precision with a threshold, the computed value of that quotient is a parameter of
  the model: the branch taken is then the one the source takes, whatever the rounding.
\<close>

datatype jsnum = Finite real | PosInf | NegInf | NaN

text \<open>\<^verbatim>\<open>a / b\<close> on finite operands; a zero divisor is the positive zero here.\<close>

definition js_div :: "real \<Rightarrow> real \<Rightarrow> jsnum" where
  "js_div a b =
     (if b \<noteq> 0 then Finite (a / b)
      else if a > 0 then PosInf else if a < 0 then NegInf else NaN)"

text \<open>\<^verbatim>\<open>x * y\<close> and \<^verbatim>\<open>x + y\<close>.\<close>

fun js_mul :: "jsnum \<Rightarrow> jsnum \<Rightarrow> jsnum" where
  "js_mul (Finite x) (Finite y) = Finite (x * y)"
| "js_mul NaN y = NaN"
| "js_mul x NaN = NaN"
| "js_mul (Finite x) PosInf = (if x > 0 then PosInf else if x < 0 then NegInf else NaN)"
| "js_mul (Finite x) NegInf = (if x > 0 then NegInf else if x < 0 then PosInf else NaN)"
| "js_mul PosInf (Finite y) = (if y > 0 then PosInf else if y < 0 then NegInf else NaN)"
| "js_mul NegInf (Finite y) = (if y > 0 then NegInf else if y < 0 then PosInf else NaN)"
| "js_mul PosInf PosInf = PosInf"
| "js_mul PosInf NegInf = NegInf"
| "js_mul NegInf PosInf = NegInf"
| "js_mul NegInf NegInf = PosInf"

fun js_add :: "jsnum \<Rightarrow> jsnum \<Rightarrow> jsnum" where
  "js_add (Finite x) (Finite y) = Finite (x + y)"
| "js_add NaN y = NaN"
| "js_add x NaN = NaN"
| "js_add PosInf NegInf = NaN"
| "js_add NegInf PosInf = NaN"
| "js_add PosInf y = PosInf"
| "js_add NegInf y = NegInf"
| "js_add (Finite x) y = y"

text \<open>\<^verbatim>\<open>x > c\<close> and \<^verbatim>\<open>x < c\<close> against a finite \<open>c\<close>; every comparison with NaN is false.\<close>

fun js_gt :: "jsnum \<Rightarrow> real \<Rightarrow> bool" where
  "js_gt (Finite x) c = (x > c)"
| "js_gt PosInf c = True"
| "js_gt NegInf c = False"
| "js_gt NaN c = False"

fun js_lt :: "jsnum \<Rightarrow> real \<Rightarrow> bool" where
  "js_lt (Finite x) c = (x < c)"
| "js_lt PosInf c = False"
| "js_lt NegInf c = True"
| "js_lt NaN c = False"

text \<open>\<^verbatim>\<open>Math.round\<close>: the nearest integer, a half rounded up.\<close>

definition js_round :: "real \<Rightarrow> int" where
  "js_round x = \<lfloor>x + 1 / 2\<rfloor>"

text \<open>\<^verbatim>\<open>Math.round(x * 100) / 100\<close>.\<close>

definition round2 :: "real \<Rightarrow> real" where
  "round2 x = real_of_int (js_round (x * 100)) / 100"

fun js_round2 :: "jsnum \<Rightarrow> jsnum" where
  "js_round2 (Finite x) = Finite (round2 x)"
| "js_round2 PosInf = PosInf"
| "js_round2 NegInf = NegInf"
| "js_round2 NaN = NaN"

section \<open>Texts\<close>

text \<open>
  A string of the program is a sequence of UTF-16 code units: \<open>split\<close>, \<open>trim\<close> and
  \<open>sort\<close> work on code units. The location labels, which come from outside, are such
  sequences. The texts that the analyzers build from digits and fixed ASCII words (the
  composite id of a merged drive, the messages) are HOL strings.
\<close>

type_synonym jsstring = "16 word list"

text \<open>The code units of a text in ASCII.\<close>

definition ascii :: "string \<Rightarrow> jsstring" where
  "ascii s = map of_char s"

section \<open>Drives\<close>

datatype stop_kind = Short | Charging | Excluded

record DriveStop =
  location :: jsstring
  duration_minutes :: real
  stop_type :: stop_kind
  started_at :: int
  ended_at :: int

record MergedDrive =
  id :: string
  originalDriveIds :: "int list"
  started_at :: int
  ended_at :: int
  starting_location :: jsstring
  ending_location :: jsstring
  starting_battery :: real
  ending_battery :: real
  total_distance :: real
  total_duration_minutes :: real
  driving_duration_minutes :: real
  stops :: "DriveStop list"
  autopilot_distance :: real
  autopilot_percentage :: real
  energy_consumed :: real
  average_speed :: jsnum
  max_speed :: real

text \<open>
  \<open>TessieDrive\<close> is declared in the API client; these are the fields the analyzers read.
  It is declared last, so an unqualified field name is a field of a raw drive.
\<close>

record TessieDrive =
  id :: int
  started_at :: int
  ended_at :: int
  starting_location :: jsstring
  ending_location :: jsstring
  starting_battery :: real
  ending_battery :: real
  odometer_distance :: real
  average_speed :: real
  max_speed :: real

datatype error = EmptyGroup | RangeError | TypeError

section \<open>Arrays of drives\<close>

text \<open>
  An array is an object: \<^verbatim>\<open>sort\<close> reorders it in place and returns the same array,
  \<^verbatim>\<open>[...drives]\<close> makes a new one. The store is the list of all arrays, an address is
  a position in it. The drives themselves are never written to, so they are values.
\<close>

type_synonym addr = nat
type_synonym heap = "TessieDrive list list"

definition alloc :: "heap \<Rightarrow> TessieDrive list \<Rightarrow> addr \<times> heap" where
  "alloc h xs = (length h, h @ [xs])"

text \<open>
  \<^verbatim>\<open>arr.sort((a, b) => a.started_at - b.started_at)\<close>: a stable sort by start time, in place.
\<close>

definition sort_by_start :: "heap \<Rightarrow> addr \<Rightarrow> heap" where
  "sort_by_start h a = h[a := sort_key TessieDrive.started_at (h ! a)]"

section \<open>Trip segmenter\<close>

definition shouldMergeDrives :: "TessieDrive \<Rightarrow> TessieDrive \<Rightarrow> real \<Rightarrow> bool" where
  "shouldMergeDrives prevDrive currentDrive gapMinutes =
     (if gapMinutes < 7 then True
      else let batteryIncrease =
                 TessieDrive.starting_battery currentDrive - TessieDrive.ending_battery prevDrive
           in if batteryIncrease > 5 then True else False)"

definition calculateSpeedConsistency :: "MergedDrive \<Rightarrow> real" where
  "calculateSpeedConsistency drive =
     (if MergedDrive.average_speed drive = Finite 0 \<or> MergedDrive.max_speed drive = 0 then 0
      else let speedRatio =
                 (case MergedDrive.average_speed drive of
                    Finite a \<Rightarrow> Finite (a / MergedDrive.max_speed drive)
                  | PosInf \<Rightarrow> (if MergedDrive.max_speed drive > 0 then PosInf else NegInf)
                  | NegInf \<Rightarrow> (if MergedDrive.max_speed drive > 0 then NegInf else PosInf)
                  | NaN \<Rightarrow> NaN)
           in if js_gt speedRatio 0.85 then 1.0
              else if js_gt speedRatio 0.75 then 0.8
              else if js_gt speedRatio 0.65 then 0.6
              else if js_gt speedRatio 0.55 then 0.4
              else 0.2)"

text \<open>
  In factor 4 the quotient is only read when the driving duration exceeds 30 minutes, so
  its divisor is not zero where it matters.
\<close>

definition predictAutopilotUsage :: "MergedDrive \<Rightarrow> real" where
  "predictAutopilotUsage drive =
     (if total_distance drive < 5 then 0
      else
        let l1 = (if js_gt (MergedDrive.average_speed drive) 45 then 0.4
                  else if js_gt (MergedDrive.average_speed drive) 35 then 0.2 else 0);
            l2 = l1 + (if total_distance drive > 30 then 0.3
                       else if total_distance drive > 15 then 0.2
                       else if total_distance drive > 10 then 0.1 else 0);
            speedConsistency = calculateSpeedConsistency drive;
            l3 = l2 + speedConsistency * 0.2;
            avgDrivingSpeed = js_div (total_distance drive) (driving_duration_minutes drive / 60);
            l4 = l3 + (if js_gt avgDrivingSpeed 50 \<and> driving_duration_minutes drive > 30
                       then 0.1 else 0);
            autopilotLikelihood = min l4 0.9;
            estimatedAutopilotMiles = total_distance drive * autopilotLikelihood
        in round2 estimatedAutopilotMiles)"

text \<open>The stops between the members of a group (the first loop of \<open>createMergedDrive\<close>).\<close>

fun stopsBetween :: "TessieDrive list \<Rightarrow> DriveStop list" where
  "stopsBetween (current # next # rest) =
     (let gapMinutes =
            real_of_int (TessieDrive.started_at next - TessieDrive.ended_at current) / 60
      in (if gapMinutes > 0
          then let batteryChange =
                     TessieDrive.starting_battery next - TessieDrive.ending_battery current;
                   stopType = (if batteryChange > 5 then Charging
                               else if gapMinutes < 7 then Short else Excluded)
               in [\<lparr> location = TessieDrive.ending_location current,
                     duration_minutes = round2 gapMinutes,
                     stop_type = stopType,
                     DriveStop.started_at = TessieDrive.ended_at current,
                     DriveStop.ended_at = TessieDrive.started_at next \<rparr>]
          else [])
         @ stopsBetween (next # rest))"
| "stopsBetween _ = []"

text \<open>Decimal digits of a drive identifier, for the composite id.\<close>

fun digits :: "nat \<Rightarrow> string" where
  "digits n =
     (if n < 10 then [char_of (48 + n)] else digits (n div 10) @ [char_of (48 + n mod 10)])"

definition show_int :: "int \<Rightarrow> string" where
  "show_int i = (if i < 0 then CHR ''-'' # digits (nat (- i)) else digits (nat i))"

fun join :: "'a list \<Rightarrow> 'a list list \<Rightarrow> 'a list" where
  "join sep [] = []"
| "join sep [x] = x"
| "join sep (x # y # ys) = x @ sep @ join sep (y # ys)"

definition createMergedDrive :: "TessieDrive list \<Rightarrow> error + MergedDrive" where
  "createMergedDrive drives =
     (if length drives = 0 then Inl EmptyGroup
      else
        let firstDrive = hd drives;
            lastDrive = last drives;
            stops = stopsBetween drives;
            totalDistance = foldl (\<lambda>sum drive. sum + odometer_distance drive) 0 drives;
            totalDuration =
              real_of_int (TessieDrive.ended_at lastDrive - TessieDrive.started_at firstDrive) / 60;
            drivingDuration =
              foldl (\<lambda>sum drive. sum +
                       real_of_int (TessieDrive.ended_at drive - TessieDrive.started_at drive) / 60)
                    0 drives;
            maxSpeed = fold max (map TessieDrive.max_speed (tl drives)) (TessieDrive.max_speed firstDrive);
            averageSpeed = (if totalDistance > 0 then js_div totalDistance (drivingDuration / 60)
                            else Finite 0);
            mergedDrive =
              \<lparr> MergedDrive.id = ''merged_'' @ join ''_'' (map (\<lambda>d. show_int (TessieDrive.id d)) drives),
                originalDriveIds = map TessieDrive.id drives,
                MergedDrive.started_at = TessieDrive.started_at firstDrive,
                MergedDrive.ended_at = TessieDrive.ended_at lastDrive,
                MergedDrive.starting_location = TessieDrive.starting_location firstDrive,
                MergedDrive.ending_location = TessieDrive.ending_location lastDrive,
                MergedDrive.starting_battery = TessieDrive.starting_battery firstDrive,
                MergedDrive.ending_battery = TessieDrive.ending_battery lastDrive,
                total_distance = round2 totalDistance,
                total_duration_minutes = round2 totalDuration,
                driving_duration_minutes = round2 drivingDuration,
                stops = stops,
                autopilot_distance = 0,
                autopilot_percentage = 0,
                energy_consumed =
                  TessieDrive.starting_battery firstDrive - TessieDrive.ending_battery lastDrive,
                MergedDrive.average_speed = js_round2 averageSpeed,
                MergedDrive.max_speed = round2 maxSpeed \<rparr>;
            predictedAutopilotMiles = predictAutopilotUsage mergedDrive
        in Inr (mergedDrive
                  \<lparr> autopilot_distance := predictedAutopilotMiles,
                    autopilot_percentage :=
                      (if totalDistance > 0
                       then real_of_int (js_round (predictedAutopilotMiles / totalDistance * 10000)) / 100
                       else 0) \<rparr>))"

text \<open>
  The loop of \<open>mergeDrives\<close> over \<open>sortedDrives[1..]\<close>: \<open>prevDrive\<close> is the element
  before the one looked at, \<open>currentGroup\<close> and \<open>mergedDrives\<close> are the two
  accumulators. The last equation is the flush after the loop.
\<close>

fun mergeLoop ::
  "TessieDrive \<Rightarrow> TessieDrive list \<Rightarrow> TessieDrive list \<Rightarrow> MergedDrive list
     \<Rightarrow> error + MergedDrive list" where
  "mergeLoop prevDrive (currentDrive # rest) currentGroup mergedDrives =
     (let gapMinutes =
            real_of_int (TessieDrive.started_at currentDrive - TessieDrive.ended_at prevDrive) / 60
      in if shouldMergeDrives prevDrive currentDrive gapMinutes
         then mergeLoop currentDrive rest (currentGroup @ [currentDrive]) mergedDrives
         else (case createMergedDrive currentGroup of
                 Inl e \<Rightarrow> Inl e
               | Inr m \<Rightarrow> mergeLoop currentDrive rest [currentDrive] (mergedDrives @ [m])))"
| "mergeLoop prevDrive [] currentGroup mergedDrives =
     (if length currentGroup > 0
      then (case createMergedDrive currentGroup of
              Inl e \<Rightarrow> Inl e
            | Inr m \<Rightarrow> Inr (mergedDrives @ [m]))
      else Inr mergedDrives)"

text \<open>
  \<open>mergeDrives\<close> on the array at address \<open>drives\<close>: the result and the store after
  the call.
\<close>

definition mergeDrives_h :: "heap \<Rightarrow> addr \<Rightarrow> (error + MergedDrive list) \<times> heap" where
  "mergeDrives_h h drives =
     (if length (h ! drives) = 0 then (Inr [], h)
      else
        let (sortedDrives, h1) = alloc h (h ! drives);
            h2 = sort_by_start h1 sortedDrives;
            s = h2 ! sortedDrives
        in (mergeLoop (hd s) (tl s) [hd s] [], h2))"

text \<open>The value \<open>mergeDrives\<close> returns for an array with the given contents.\<close>

definition mergeDrives :: "TessieDrive list \<Rightarrow> error + MergedDrive list" where
  "mergeDrives drives = fst (mergeDrives_h [drives] 0)"

section \<open>Efficiency trend analyzer\<close>

datatype weather = Hot | Cold | Mild
datatype direction = Improving | Declining | Stable
datatype confidence = High | Medium | Low

text \<open>
  The \<open>date\<close> of a data point is the text \<open>YYYY-MM-DD\<close> of the UTC day of the start
  time; the model keeps the number of that day.
\<close>

record EfficiencyDataPoint =
  date :: int
  efficiency_kwh_per_100mi :: real
  distance_miles :: real
  weather_factor :: weather
  highway_percentage :: real
  avg_speed :: real

record EfficiencyTrend =
  period :: string
  trend_direction :: direction
  trend_percentage :: jsnum
  avg_efficiency :: real
  best_efficiency :: real
  worst_efficiency :: real
  confidence :: confidence

record efficiency_range =
  best :: jsnum
  worst :: jsnum

record current_period =
  avg_efficiency :: real
  total_miles :: real
  total_drives :: nat
  efficiency_range :: efficiency_range

record trends =
  weekly :: EfficiencyTrend
  monthly :: EfficiencyTrend
  seasonal :: EfficiencyTrend

record weather_impact =
  hot_weather_penalty :: real
  cold_weather_penalty :: real
  optimal_temp_range :: string

record speed_impact =
  highway_efficiency :: real
  city_efficiency :: real
  optimal_speed_range :: string

record time_patterns =
  best_day_of_week :: string
  worst_day_of_week :: string
  best_time_of_day :: string

record factors_analysis =
  weather_impact :: weather_impact
  speed_impact :: speed_impact
  time_patterns :: time_patterns

record EfficiencyAnalysis =
  current_period :: current_period
  trends :: trends
  factors_analysis :: factors_analysis
  recommendations :: "string list"
  insights :: "string list"

definition BATTERY_CAPACITY_KWH :: real where
  "BATTERY_CAPACITY_KWH = 75"

definition HIGHWAY_SPEED_THRESHOLD :: real where
  "HIGHWAY_SPEED_THRESHOLD = 55"

definition emptyAnalysis :: "string \<Rightarrow> EfficiencyAnalysis" where
  "emptyAnalysis message =
     (let emptyTrend =
            \<lparr> period = ''N/A'', trend_direction = Stable, trend_percentage = Finite 0,
              EfficiencyTrend.avg_efficiency = 0, best_efficiency = 0, worst_efficiency = 0,
              confidence = Low \<rparr>
      in \<lparr> current_period =
             \<lparr> current_period.avg_efficiency = 0, total_miles = 0, total_drives = 0,
               efficiency_range = \<lparr> best = Finite 0, worst = Finite 0 \<rparr> \<rparr>,
           trends = \<lparr> weekly = emptyTrend, monthly = emptyTrend, seasonal = emptyTrend \<rparr>,
           factors_analysis =
             \<lparr> weather_impact =
                 \<lparr> hot_weather_penalty = 0, cold_weather_penalty = 0,
                   optimal_temp_range = ''Unknown'' \<rparr>,
               speed_impact =
                 \<lparr> highway_efficiency = 0, city_efficiency = 0,
                   optimal_speed_range = ''Unknown'' \<rparr>,
               time_patterns =
                 \<lparr> best_day_of_week = ''Unknown'', worst_day_of_week = ''Unknown'',
                   best_time_of_day = ''Unknown'' \<rparr> \<rparr>,
           recommendations = [message],
           insights = [] \<rparr>)"

text \<open>
  \<^verbatim>\<open>new Date(started_at * 1000).toISOString()\<close> raises a RangeError when the time is not
  a valid date, that is beyond 8.64e15 milliseconds from the epoch.
\<close>

definition valid_date :: "int \<Rightarrow> bool" where
  "valid_date seconds = (\<bar>seconds * 1000\<bar> \<le> 8640000000000000)"

text \<open>
  The consumption rate of one drive, in kWh per 100 miles (0 when there is no distance).
  \<open>rate batteryUsed distance\<close> is the value that double precision gives to
  \<^verbatim>\<open>(batteryUsed / 100) * BATTERY_CAPACITY_KWH / distance * 100\<close>; \<open>exact_rate\<close> is its
  value in exact arithmetic.
\<close>

definition exact_rate :: "real \<Rightarrow> real \<Rightarrow> real" where
  "exact_rate batteryUsed distance = (batteryUsed / 100) * BATTERY_CAPACITY_KWH / distance * 100"

definition efficiency_of :: "(real \<Rightarrow> real \<Rightarrow> real) \<Rightarrow> TessieDrive \<Rightarrow> real" where
  "efficiency_of rate drive =
     (let distance = odometer_distance drive;
          batteryUsed = TessieDrive.starting_battery drive - TessieDrive.ending_battery drive
      in if distance > 0 then rate batteryUsed distance else 0)"

definition toDataPoint :: "(real \<Rightarrow> real \<Rightarrow> real) \<Rightarrow> TessieDrive \<Rightarrow> EfficiencyDataPoint" where
  "toDataPoint rate drive =
     (let distance = odometer_distance drive;
          efficiency = efficiency_of rate drive;
          avgSpeed = TessieDrive.average_speed drive;
          highwayPercentage =
            (if avgSpeed > HIGHWAY_SPEED_THRESHOLD then min 100 ((avgSpeed - 25) / 45 * 100) else 0);
          weatherFactor = (if efficiency > 35 then Cold else if efficiency > 30 then Hot else Mild)
      in \<lparr> date = TessieDrive.started_at drive div 86400,
           efficiency_kwh_per_100mi = efficiency,
           distance_miles = distance,
           weather_factor = weatherFactor,
           highway_percentage = highwayPercentage,
           avg_speed = avgSpeed \<rparr>)"

definition convertToDataPoints ::
  "(real \<Rightarrow> real \<Rightarrow> real) \<Rightarrow> TessieDrive list \<Rightarrow> error + EfficiencyDataPoint list" where
  "convertToDataPoints rate drives =
     (if list_all (\<lambda>drive. valid_date (TessieDrive.started_at drive)) drives
      then Inr (filter (\<lambda>dp. efficiency_kwh_per_100mi dp > 0 \<and> efficiency_kwh_per_100mi dp < 60)
                  (map (toDataPoint rate) drives))
      else Inl RangeError)"

definition average :: "real list \<Rightarrow> real" where
  "average numbers =
     (if length numbers = 0 then 0
      else let sum = foldl (\<lambda>a b. a + b) 0 numbers
           in round2 (sum / real (length numbers)))"

text \<open>\<^verbatim>\<open>Math.min(...xs)\<close> and \<^verbatim>\<open>Math.max(...xs)\<close>: infinite on the empty list.\<close>

definition js_min_list :: "real list \<Rightarrow> jsnum" where
  "js_min_list xs = (case xs of [] \<Rightarrow> PosInf | y # ys \<Rightarrow> Finite (fold min ys y))"

definition js_max_list :: "real list \<Rightarrow> jsnum" where
  "js_max_list xs = (case xs of [] \<Rightarrow> NegInf | y # ys \<Rightarrow> Finite (fold max ys y))"

definition calculateCurrentPeriodStats :: "EfficiencyDataPoint list \<Rightarrow> current_period" where
  "calculateCurrentPeriodStats dataPoints =
     (let efficiencies = map efficiency_kwh_per_100mi dataPoints;
          totalMiles = foldl (\<lambda>sum dp. sum + distance_miles dp) 0 dataPoints
      in \<lparr> current_period.avg_efficiency = average efficiencies,
           total_miles = round2 totalMiles,
           total_drives = length dataPoints,
           efficiency_range =
             \<lparr> best = js_min_list efficiencies, worst = js_max_list efficiencies \<rparr> \<rparr>)"

text \<open>
  The rest of the analysis reads the wall clock (\<open>calculateTrends\<close>) and the time zone of
  the host (\<open>analyzeEfficiencyFactors\<close>), and formats numbers into text
  (\<open>generateInsights\<close>, \<open>generateRecommendations\<close>). These four are parameters of the
  model; none of them writes to an array. \<open>consumption_rate\<close> is the double-precision
  arithmetic of the consumption rate.
\<close>

record efficiency_env =
  consumption_rate :: "real \<Rightarrow> real \<Rightarrow> real"
  calculateTrends :: "EfficiencyDataPoint list \<Rightarrow> trends"
  analyzeEfficiencyFactors :: "TessieDrive list \<Rightarrow> EfficiencyDataPoint list \<Rightarrow> factors_analysis"
  generateInsights :: "EfficiencyDataPoint list \<Rightarrow> trends \<Rightarrow> factors_analysis \<Rightarrow> string list"
  generateRecommendations :: "trends \<Rightarrow> factors_analysis \<Rightarrow> string list"

text \<open>
  \<open>analyzeEfficiencyTrends\<close> on the array at address \<open>drives\<close>: the result and the
  store after the call. \<open>sortedDrives\<close> is the array \<open>drives\<close> itself, sorted in place.
\<close>

definition analyzeEfficiencyTrends_h ::
  "efficiency_env \<Rightarrow> heap \<Rightarrow> addr \<Rightarrow> (error + EfficiencyAnalysis) \<times> heap" where
  "analyzeEfficiencyTrends_h env h drives =
     (if length (h ! drives) < 5
      then (Inr (emptyAnalysis
                   ''Insufficient driving data for trend analysis (minimum 5 drives required)''), h)
      else
        let h1 = sort_by_start h drives;
            sortedDrives = drives
        in case convertToDataPoints (consumption_rate env) (h1 ! sortedDrives) of
             Inl e \<Rightarrow> (Inl e, h1)
           | Inr dataPoints \<Rightarrow>
               let currentPeriod = calculateCurrentPeriodStats dataPoints;
                   trends = calculateTrends env dataPoints;
                   factorsAnalysis = analyzeEfficiencyFactors env (h1 ! sortedDrives) dataPoints;
                   insights = generateInsights env dataPoints trends factorsAnalysis;
                   recommendations = generateRecommendations env trends factorsAnalysis
               in (Inr \<lparr> current_period = currentPeriod,
                         trends = trends,
                         factors_analysis = factorsAnalysis,
                         recommendations = recommendations,
                         insights = insights \<rparr>, h1))"

definition analyzeEfficiencyTrends ::
  "efficiency_env \<Rightarrow> TessieDrive list \<Rightarrow> error + EfficiencyAnalysis" where
  "analyzeEfficiencyTrends env drives = fst (analyzeEfficiencyTrends_h env [drives] 0)"

section \<open>Splitting, trimming and ordering texts\<close>

text \<open>\<^verbatim>\<open>s.split(c)\<close>: the pieces between the separators, one piece for a text without any.\<close>

fun split_on :: "'a \<Rightarrow> 'a list \<Rightarrow> 'a list list" where
  "split_on c [] = [[]]"
| "split_on c (x # xs) =
     (if x = c then [] # split_on c xs
      else (case split_on c xs of p # ps \<Rightarrow> (x # p) # ps | [] \<Rightarrow> [[x]]))"

text \<open>
  \<^verbatim>\<open>s.trim()\<close> removes the white space and the line terminators of ECMAScript at both
  ends: tab, line feed, vertical tab, form feed, carriage return, space, no-break space,
  the space separators of Unicode (U+1680, U+2000 to U+200A, U+202F, U+205F, U+3000), the
  line and paragraph separators and the byte order mark.
\<close>

definition is_space :: "16 word \<Rightarrow> bool" where
  "is_space c = (c \<in> set [0x0009, 0x000A, 0x000B, 0x000C, 0x000D, 0x0020, 0x00A0, 0x1680,
       0x2000, 0x2001, 0x2002, 0x2003, 0x2004, 0x2005, 0x2006, 0x2007, 0x2008, 0x2009, 0x200A,
       0x2028, 0x2029, 0x202F, 0x205F, 0x3000, 0xFEFF])"

definition trim :: "jsstring \<Rightarrow> jsstring" where
  "trim s = rev (dropWhile is_space (rev (dropWhile is_space s)))"

text \<open>
  The order of \<^verbatim>\<open>sort()\<close> without a comparator: texts by their UTF-16 code units, a
  proper prefix before the longer text.
\<close>

fun str_less :: "jsstring \<Rightarrow> jsstring \<Rightarrow> bool" where
  "str_less [] [] = False"
| "str_less [] (y # ys) = True"
| "str_less (x # xs) [] = False"
| "str_less (x # xs) (y # ys) =
     (if x < y then True
      else if y < x then False
      else str_less xs ys)"

text \<open>\<^verbatim>\<open>[a, b].sort()\<close>: the two texts are exchanged when the second is before the first.\<close>

definition sort_pair :: "jsstring \<Rightarrow> jsstring \<Rightarrow> jsstring list" where
  "sort_pair a b = (if str_less b a then [b, a] else [a, b])"

section \<open>Commute route clusterer\<close>

record count_time =
  count :: nat
  avg_time :: string

record route_time_patterns =
  morning_commute :: count_time
  evening_commute :: count_time
  weekend :: count_time

record CommuteRoute =
  id :: jsstring
  name :: jsstring
  from_location :: jsstring
  to_location :: jsstring
  typical_distance :: real
  frequency :: jsnum
  avg_duration_minutes :: real
  avg_efficiency_kwh_per_100mi :: real
  avg_battery_used :: real
  best_efficiency :: jsnum
  worst_efficiency :: jsnum
  recent_trend :: direction
  time_patterns :: route_time_patterns

record weekly_summary =
  total_drives :: nat
  total_miles :: real
  total_cost :: real
  avg_efficiency :: real
  best_day :: string
  worst_day :: string

record CommuteAnalysis =
  routes_detected :: nat
  total_commute_miles :: jsnum
  total_commute_cost :: jsnum
  avg_commute_efficiency :: real
  routes :: "CommuteRoute list"
  recommendations :: "string list"
  weekly_summary :: weekly_summary

definition MIN_ROUTE_FREQUENCY :: nat where
  "MIN_ROUTE_FREQUENCY = 3"

definition HOME_RATE_PER_KWH :: real where
  "HOME_RATE_PER_KWH = 0.13"

definition commute_emptyAnalysis :: "string \<Rightarrow> CommuteAnalysis" where
  "commute_emptyAnalysis message =
     \<lparr> routes_detected = 0,
       total_commute_miles = Finite 0,
       total_commute_cost = Finite 0,
       avg_commute_efficiency = 0,
       routes = [],
       CommuteAnalysis.recommendations = [message],
       weekly_summary =
         \<lparr> weekly_summary.total_drives = 0, weekly_summary.total_miles = 0, total_cost = 0,
           weekly_summary.avg_efficiency = 0, best_day = ''N/A'', worst_day = ''N/A'' \<rparr> \<rparr>"

text \<open>The comma is the code unit 0x2C, the space 0x20.\<close>

definition normalizeLocation :: "jsstring \<Rightarrow> jsstring" where
  "normalizeLocation loc =
     (let parts = split_on 0x002C loc
      in if length parts \<ge> 3
         then trim (parts ! (length parts - 3)) @ [0x002C, 0x0020] @ trim (parts ! (length parts - 2))
         else loc)"

text \<open>
  The separator of a route id and of a route name, as the source file holds it: a space,
  the code units U+00E2, U+2020 and U+201D, and a space.
\<close>

definition route_sep :: jsstring where
  "route_sep = [0x0020, 0x00E2, 0x2020, 0x201D, 0x0020]"

definition generateRouteId :: "jsstring \<Rightarrow> jsstring \<Rightarrow> jsstring" where
  "generateRouteId startLocation endLocation =
     (let start = normalizeLocation startLocation;
          end = normalizeLocation endLocation
      in join route_sep (sort_pair start end))"

text \<open>
  The \<open>Map\<close> of \<open>groupDrivesByRoute\<close>, its keys in the order of their first insertion:
  one step of the loop adds the key with an empty array if it is new, and pushes the drive.
\<close>

fun push_route ::
  "(jsstring \<times> TessieDrive list) list \<Rightarrow> jsstring \<Rightarrow> TessieDrive \<Rightarrow> (jsstring \<times> TessieDrive list) list" where
  "push_route [] routeId drive = [(routeId, [drive])]"
| "push_route ((k, ds) # entries) routeId drive =
     (if k = routeId then (k, ds @ [drive]) # entries
      else (k, ds) # push_route entries routeId drive)"

definition groupDrivesByRoute :: "TessieDrive list \<Rightarrow> (jsstring \<times> TessieDrive list) list" where
  "groupDrivesByRoute drives =
     foldl (\<lambda>routes drive.
              push_route routes
                (generateRouteId (TessieDrive.starting_location drive)
                                 (TessieDrive.ending_location drive))
                drive)
           [] drives"

definition extractCityName :: "jsstring \<Rightarrow> jsstring" where
  "extractCityName loc =
     (let parts = split_on 0x002C loc
      in if length parts \<ge> 2
         then (if length parts \<ge> 3 \<and> trim (parts ! (length parts - 3)) \<noteq> []
               then trim (parts ! (length parts - 3))
               else trim (parts ! 0))
         else hd (split_on 0x0020 loc))"

definition generateRouteName :: "TessieDrive \<Rightarrow> jsstring" where
  "generateRouteName drive =
     (let startCity = extractCityName (TessieDrive.starting_location drive);
          endCity = extractCityName (TessieDrive.ending_location drive)
      in if startCity = endCity then startCity @ ascii '' Local''
         else startCity @ route_sep @ endCity)"

text \<open>The consumption rate the clusterer computes for one drive.\<close>

definition route_efficiency :: "TessieDrive \<Rightarrow> real" where
  "route_efficiency d =
     (let distance = odometer_distance d;
          battery = TessieDrive.starting_battery d - TessieDrive.ending_battery d
      in if distance = 0 then 0 else (battery / 100) * 75 / distance * 100)"

definition calculateAvgEfficiencyForDrives :: "TessieDrive list \<Rightarrow> real" where
  "calculateAvgEfficiencyForDrives drives =
     (let efficiencies = filter (\<lambda>e. e > 0 \<and> e < 50) (map route_efficiency drives)
      in average efficiencies)"

text \<open>
  \<open>calculateEfficiencyTrend\<close> and \<open>calculateWeeklyFrequency\<close> sort the array they are
  given in place: each returns its result and the array as it leaves it.
\<close>

definition calculateEfficiencyTrend :: "TessieDrive list \<Rightarrow> direction \<times> TessieDrive list" where
  "calculateEfficiencyTrend drives =
     (if length drives < 6 then (Stable, drives)
      else
        let sortedDrives = sort_key TessieDrive.started_at drives;
            recentDrives = drop (length sortedDrives - 6) sortedDrives;
            olderDrives = take (min 6 (length drives - 6)) sortedDrives
        in if length olderDrives = 0 then (Stable, sortedDrives)
           else
             let recentEfficiency = calculateAvgEfficiencyForDrives recentDrives;
                 olderEfficiency = calculateAvgEfficiencyForDrives olderDrives;
                 improvement =
                   js_mul (js_div (olderEfficiency - recentEfficiency) olderEfficiency) (Finite 100)
             in if js_gt improvement 5 then (Improving, sortedDrives)
                else if js_lt improvement (- 5) then (Declining, sortedDrives)
                else (Stable, sortedDrives))"

definition calculateWeeklyFrequency :: "TessieDrive list \<Rightarrow> jsnum \<times> TessieDrive list" where
  "calculateWeeklyFrequency drives =
     (if length drives = 0 then (Finite 0, drives)
      else
        let sortedDrives = sort_key TessieDrive.started_at drives;
            firstDrive = hd sortedDrives;
            lastDrive = last sortedDrives;
            timeSpanWeeks =
              real_of_int (TessieDrive.started_at lastDrive - TessieDrive.started_at firstDrive)
                / (7 * 24 * 3600)
        in if timeSpanWeeks = 0 then (Finite (real (length drives)), sortedDrives)
           else (js_round2 (js_div (real (length drives)) timeSpanWeeks), sortedDrives))"

text \<open>
  \<open>analyzeTimePatterns\<close> and \<open>calculateWeeklySummary\<close> read the time zone of the host,
  \<open>generateCommuteRecommendations\<close> formats numbers into text: parameters of the model.
  None of them writes to an array. \<open>calculateWeeklySummary\<close> looks up the day of the
  week of every drive; for a start time that is not a valid date the day is \<open>undefined\<close>,
  so is the entry of the map, and the increment of its counter raises a TypeError. That
  exception is written out in \<open>analyzeCommutes_h\<close>; the parameter is the result on valid
  dates.
\<close>

record commute_env =
  analyzeTimePatterns :: "TessieDrive list \<Rightarrow> route_time_patterns"
  calculateWeeklySummary :: "TessieDrive list \<Rightarrow> CommuteRoute list \<Rightarrow> weekly_summary"
  generateCommuteRecommendations :: "CommuteRoute list \<Rightarrow> weekly_summary \<Rightarrow> string list"

text \<open>
  \<open>analyzeRoute\<close> on one group: the route, and the array of the group as the call leaves
  it. \<open>drives[0]\<close> is read after \<open>calculateEfficiencyTrend\<close> has run; on an empty
  group it is \<open>undefined\<close> and \<open>generateRouteName\<close> raises a TypeError.
\<close>

definition analyzeRoute ::
  "commute_env \<Rightarrow> jsstring \<times> TessieDrive list \<Rightarrow> error + (CommuteRoute \<times> TessieDrive list)" where
  "analyzeRoute env routeGroup =
     (let drives = snd routeGroup;
          distances = map odometer_distance drives;
          durations =
            map (\<lambda>d. real_of_int (TessieDrive.ended_at d - TessieDrive.started_at d) / 60) drives;
          batteryUsed =
            map (\<lambda>d. TessieDrive.starting_battery d - TessieDrive.ending_battery d) drives;
          efficiencies = filter (\<lambda>e. e > 0 \<and> e < 50) (map route_efficiency drives);
          timePatterns = analyzeTimePatterns env drives;
          (recentTrend, drives1) = calculateEfficiencyTrend drives
      in if drives1 = [] then Inl TypeError
         else
           let routeName = generateRouteName (hd drives1);
               (freq, drives2) = calculateWeeklyFrequency drives1
           in Inr (\<lparr> CommuteRoute.id = fst routeGroup,
                      name = routeName,
                      from_location = TessieDrive.starting_location (hd drives1),
                      to_location = TessieDrive.ending_location (hd drives1),
                      typical_distance = average distances,
                      frequency = freq,
                      avg_duration_minutes = average durations,
                      CommuteRoute.avg_efficiency_kwh_per_100mi = average efficiencies,
                      avg_battery_used = average batteryUsed,
                      CommuteRoute.best_efficiency = js_min_list efficiencies,
                      CommuteRoute.worst_efficiency = js_max_list efficiencies,
                      recent_trend = recentTrend,
                      CommuteRoute.time_patterns = timePatterns \<rparr>, drives2))"

text \<open>\<open>map\<close> over the retained groups, stopping at the first exception.\<close>

fun analyzeRoutes ::
  "commute_env \<Rightarrow> (jsstring \<times> TessieDrive list) list \<Rightarrow> error + (CommuteRoute \<times> TessieDrive list) list" where
  "analyzeRoutes env [] = Inr []"
| "analyzeRoutes env (g # gs) =
     (case analyzeRoute env g of
        Inl e \<Rightarrow> Inl e
      | Inr r \<Rightarrow> (case analyzeRoutes env gs of Inl e \<Rightarrow> Inl e | Inr rs \<Rightarrow> Inr (r # rs)))"

definition calculateCommuteCost :: "jsnum \<Rightarrow> jsnum" where
  "calculateCommuteCost totalMiles =
     (let kwhUsed = js_mul totalMiles (Finite (1 / 4))
      in js_mul kwhUsed (Finite HOME_RATE_PER_KWH))"

definition calculateAvgEfficiency :: "CommuteRoute list \<Rightarrow> real" where
  "calculateAvgEfficiency commuteRoutes =
     (if length commuteRoutes = 0 then 0
      else let total = foldl (\<lambda>sum route. sum + CommuteRoute.avg_efficiency_kwh_per_100mi route)
                             0 commuteRoutes
           in round2 (total / real (length commuteRoutes)))"

text \<open>
  \<open>analyzeCommutes\<close> on the array at address \<open>drives\<close>: the result and the store after
  the call. The arrays of the groups are new arrays, here put behind the store that was
  there; those of the retained groups are left sorted by \<open>analyzeRoute\<close>. The routes are
  analysed before the weekly summary is computed, so its TypeError comes after them.
\<close>

definition analyzeCommutes_h ::
  "commute_env \<Rightarrow> heap \<Rightarrow> addr \<Rightarrow> (error + CommuteAnalysis) \<times> heap" where
  "analyzeCommutes_h env h drives =
     (if length (h ! drives) < 10
      then (Inr (commute_emptyAnalysis ''Not enough driving data to detect commute patterns''), h)
      else
        let routeGroups = groupDrivesByRoute (h ! drives);
            kept = filter (\<lambda>group. length (snd group) \<ge> MIN_ROUTE_FREQUENCY) routeGroups;
            dropped = filter (\<lambda>group. \<not> length (snd group) \<ge> MIN_ROUTE_FREQUENCY) routeGroups
        in case analyzeRoutes env kept of
             Inl e \<Rightarrow> (Inl e, h @ map snd routeGroups)
           | Inr analyzed \<Rightarrow>
               let commuteRoutes = map fst analyzed;
                   h1 = h @ map snd dropped @ map snd analyzed
               in if \<not> list_all (\<lambda>drive. valid_date (TessieDrive.started_at drive)) (h ! drives)
                  then (Inl TypeError, h1)
                  else
               let weeklySummary = calculateWeeklySummary env (h ! drives) commuteRoutes;
                   recommendations = generateCommuteRecommendations env commuteRoutes weeklySummary;
                   totalCommuteMiles =
                     foldl (\<lambda>sum route.
                              js_add sum (js_mul (Finite (typical_distance route)) (frequency route)))
                           (Finite 0) commuteRoutes;
                   totalCommuteCost = calculateCommuteCost totalCommuteMiles
               in (Inr \<lparr> routes_detected = length commuteRoutes,
                         total_commute_miles = js_round2 totalCommuteMiles,
                         total_commute_cost = js_round2 totalCommuteCost,
                         avg_commute_efficiency = calculateAvgEfficiency commuteRoutes,
                         routes = commuteRoutes,
                         CommuteAnalysis.recommendations = recommendations,
                         weekly_summary = weeklySummary \<rparr>, h1))"

definition analyzeCommutes :: "commute_env \<Rightarrow> TessieDrive list \<Rightarrow> error + CommuteAnalysis" where
  "analyzeCommutes env drives = fst (analyzeCommutes_h env [drives] 0)"

section \<open>Trip cost calculator\<close>

definition DEFAULT_HOME_RATE :: real where
  "DEFAULT_HOME_RATE = 0.13"

definition DEFAULT_SUPERCHARGER_RATE :: real where
  "DEFAULT_SUPERCHARGER_RATE = 0.28"

definition DEFAULT_GAS_PRICE :: real where
  "DEFAULT_GAS_PRICE = 4.50"

definition DEFAULT_MPG :: real where
  "DEFAULT_MPG = 30"

definition CO2_PER_GALLON :: real where
  "CO2_PER_GALLON = 19.6"

definition CO2_PER_KWH_GRID :: real where
  "CO2_PER_KWH_GRID = 0.855"

text \<open>The lines of advice are templates filled with rounded numbers; the model keeps the
  template and the numbers.\<close>

datatype advice =
    NoTripData
  | HighSuperchargerUsage jsnum
  | SingleOvernightCharge
  | OptimalStartingCharge int
  | ScheduleOffPeak

record trip_summary =
  distance_miles :: real
  duration_hours :: real
  battery_used_percent :: real
  energy_used_kwh :: real
  efficiency_miles_per_kwh :: real

record cost_breakdown =
  electricity_cost :: real
  charging_stops_cost :: real
  total_cost :: real
  cost_per_mile :: jsnum

record vs_gas_vehicle =
  gas_cost_estimate :: real
  savings :: real
  savings_percentage :: real

record vs_optimal_charging =
  optimal_cost :: real
  current_cost :: real
  potential_savings :: real

record comparison =
  vs_gas_vehicle :: vs_gas_vehicle
  vs_optimal_charging :: vs_optimal_charging

record environmental_impact =
  co2_saved_lbs :: real
  trees_equivalent :: int

record TripCostAnalysis =
  trip_summary :: trip_summary
  cost_breakdown :: cost_breakdown
  comparison :: comparison
  charging_strategy :: "advice list"
  environmental_impact :: environmental_impact

record charging_costs =
  electricityCost :: real
  chargingStopsCost :: real
  totalCost :: real

definition trip_emptyAnalysis :: TripCostAnalysis where
  "trip_emptyAnalysis =
     \<lparr> trip_summary =
         \<lparr> trip_summary.distance_miles = 0, duration_hours = 0, battery_used_percent = 0,
           energy_used_kwh = 0, efficiency_miles_per_kwh = 0 \<rparr>,
       cost_breakdown =
         \<lparr> electricity_cost = 0, charging_stops_cost = 0, cost_breakdown.total_cost = 0,
           cost_per_mile = Finite 0 \<rparr>,
       comparison =
         \<lparr> vs_gas_vehicle =
             \<lparr> gas_cost_estimate = 0, savings = 0, savings_percentage = 0 \<rparr>,
           vs_optimal_charging =
             \<lparr> optimal_cost = 0, current_cost = 0, potential_savings = 0 \<rparr> \<rparr>,
       charging_strategy = [NoTripData],
       environmental_impact = \<lparr> co2_saved_lbs = 0, trees_equivalent = 0 \<rparr> \<rparr>"

definition calculateTotalDuration :: "TessieDrive list \<Rightarrow> real" where
  "calculateTotalDuration drives =
     (if length drives = 0 then 0
      else let firstStart = TessieDrive.started_at (hd drives);
               lastEnd = TessieDrive.ended_at (last drives)
           in real_of_int (lastEnd - firstStart) / 3600)"

text \<open>The loop keeps \<open>lastEndingBattery\<close> but never reads it for the result.\<close>

definition calculateTotalBatteryUsed :: "TessieDrive list \<Rightarrow> error + real" where
  "calculateTotalBatteryUsed drives =
     (if drives = [] then Inl TypeError
      else Inr (fst (foldl (\<lambda>(totalUsed, lastEndingBattery) drive.
                              let driveUsage =
                                    TessieDrive.starting_battery drive - TessieDrive.ending_battery drive
                              in ((if driveUsage > 0 then totalUsed + driveUsage else totalUsed),
                                  TessieDrive.ending_battery drive))
                           (0, TessieDrive.starting_battery (hd drives)) drives)))"

text \<open>
  The loop of \<open>estimateChargingCosts\<close> over the consecutive pairs, with its two
  accumulators \<open>homeCost\<close> and \<open>superchargerCost\<close>.
\<close>

fun gapCosts :: "TessieDrive list \<Rightarrow> real \<Rightarrow> real \<Rightarrow> real \<times> real \<Rightarrow> real \<times> real" where
  "gapCosts (prevDrive # currentDrive # rest) homeRate superchargerRate (homeCost, superchargerCost) =
     (let batteryGained =
            TessieDrive.starting_battery currentDrive - TessieDrive.ending_battery prevDrive
      in if batteryGained > 2
         then
           let energyAdded = (batteryGained / 100) * BATTERY_CAPACITY_KWH;
               gapHours =
                 real_of_int (TessieDrive.started_at currentDrive - TessieDrive.ended_at prevDrive)
                   / 3600
           in if gapHours < 1 \<and> batteryGained > 30
              then gapCosts (currentDrive # rest) homeRate superchargerRate
                     (homeCost, superchargerCost + energyAdded * superchargerRate)
              else gapCosts (currentDrive # rest) homeRate superchargerRate
                     (homeCost + energyAdded * homeRate, superchargerCost)
         else gapCosts (currentDrive # rest) homeRate superchargerRate (homeCost, superchargerCost))"
| "gapCosts drives homeRate superchargerRate costs = costs"

text \<open>
  Two quotients of the calculator decide a branch and are computed in double precision;
  their computed values are parameters of the model. \<open>energy_kwh x\<close> is the value of
  \<^verbatim>\<open>(x / 100) * BATTERY_CAPACITY_KWH\<close>. \<open>detected_kwh drives homeRate superchargerRate\<close>
  is the value of \<^verbatim>\<open>(homeCost / homeRate) + (superchargerCost / superchargerRate)\<close> after
  the loop over the gaps of \<open>drives\<close>: \<open>None\<close> when it is NaN (a rate is zero, and so
  is the cost at that rate) or Infinity, which are below no threshold. It is never
  -Infinity, since each quotient is of a cost by its own rate.
\<close>

record trip_arith =
  energy_kwh :: "real \<Rightarrow> real"
  detected_kwh :: "TessieDrive list \<Rightarrow> real \<Rightarrow> real \<Rightarrow> real option"

text \<open>The two quotients in exact arithmetic.\<close>

definition exact_arith :: trip_arith where
  "exact_arith =
     \<lparr> energy_kwh = (\<lambda>x. (x / 100) * BATTERY_CAPACITY_KWH),
       detected_kwh =
         (\<lambda>drives homeRate superchargerRate.
            let (homeCost, superchargerCost) = gapCosts drives homeRate superchargerRate (0, 0)
            in case js_add (js_div homeCost homeRate) (js_div superchargerCost superchargerRate) of
                 Finite detected \<Rightarrow> Some detected
               | _ \<Rightarrow> None) \<rparr>"

definition estimateChargingCosts ::
  "trip_arith \<Rightarrow> TessieDrive list \<Rightarrow> real \<Rightarrow> real \<Rightarrow> real \<Rightarrow> charging_costs" where
  "estimateChargingCosts arith drives totalEnergyKwh homeRate superchargerRate =
     (let (homeCost0, superchargerCost) = gapCosts drives homeRate superchargerRate (0, 0);
          detectedChargingKwh = detected_kwh arith drives homeRate superchargerRate;
          homeCost =
            (case detectedChargingKwh of
               Some detected \<Rightarrow>
                 (if detected < totalEnergyKwh * 0.5
                  then let unaccountedKwh = totalEnergyKwh - detected
                       in homeCost0 + unaccountedKwh * homeRate
                  else homeCost0)
             | None \<Rightarrow> homeCost0)
      in \<lparr> electricityCost = homeCost,
           chargingStopsCost = superchargerCost,
           totalCost = homeCost + superchargerCost \<rparr>)"

definition generateChargingStrategy :: "TessieDrive list \<Rightarrow> real \<Rightarrow> charging_costs \<Rightarrow> advice list" where
  "generateChargingStrategy drives totalBatteryUsed costs =
     (let superchargerPercent =
            js_mul (js_div (chargingStopsCost costs) (totalCost costs)) (Finite 100);
          s1 = (if js_gt superchargerPercent 40
                then [HighSuperchargerUsage
                        (case superchargerPercent of
                           Finite p \<Rightarrow> Finite (real_of_int (js_round p))
                         | p \<Rightarrow> p)]
                else []);
          s2 = (if totalBatteryUsed < 80 then [SingleOvernightCharge] else []);
          optimalStartCharge = min 90 (totalBatteryUsed + 20);
          s3 = [OptimalStartingCharge (js_round optimalStartCharge)];
          s4 = (if electricityCost costs > 0 then [ScheduleOffPeak] else [])
      in s1 @ s2 @ s3 @ s4)"

definition calculateTripCost ::
  "trip_arith \<Rightarrow> TessieDrive list \<Rightarrow> real \<Rightarrow> real \<Rightarrow> real \<Rightarrow> error + TripCostAnalysis" where
  "calculateTripCost arith drives homeRate superchargerRate gasPrice =
     (if length drives = 0 then Inr trip_emptyAnalysis
      else
        let sortedDrives = sort_key TessieDrive.started_at drives;
            totalDistance = foldl (\<lambda>sum d. sum + odometer_distance d) 0 drives;
            totalDuration = calculateTotalDuration sortedDrives
        in case calculateTotalBatteryUsed sortedDrives of
             Inl e \<Rightarrow> Inl e
           | Inr totalBatteryUsed \<Rightarrow>
               let totalEnergyKwh = energy_kwh arith totalBatteryUsed;
                   efficiency = (if totalEnergyKwh > 0 then totalDistance / totalEnergyKwh else 0);
                   chargingCosts =
                     estimateChargingCosts arith sortedDrives totalEnergyKwh homeRate superchargerRate;
                   gasCost = totalDistance / DEFAULT_MPG * gasPrice;
                   optimal = totalEnergyKwh * (homeRate * 0.7);
                   strategy = generateChargingStrategy sortedDrives totalBatteryUsed chargingCosts;
                   co2Saved = totalDistance / DEFAULT_MPG * CO2_PER_GALLON
                                - totalEnergyKwh * CO2_PER_KWH_GRID;
                   treesEquivalent = co2Saved / 48
               in Inr \<lparr> trip_summary =
                          \<lparr> trip_summary.distance_miles = round2 totalDistance,
                            duration_hours = round2 totalDuration,
                            battery_used_percent = round2 totalBatteryUsed,
                            energy_used_kwh = round2 totalEnergyKwh,
                            efficiency_miles_per_kwh = round2 efficiency \<rparr>,
                        cost_breakdown =
                          \<lparr> electricity_cost = round2 (electricityCost chargingCosts),
                            charging_stops_cost = round2 (chargingStopsCost chargingCosts),
                            cost_breakdown.total_cost = round2 (totalCost chargingCosts),
                            cost_per_mile =
                              (case js_div (totalCost chargingCosts) totalDistance of
                                 Finite q \<Rightarrow> Finite (real_of_int (js_round (q * 1000)) / 1000)
                               | q \<Rightarrow> q) \<rparr>,
                        comparison =
                          \<lparr> vs_gas_vehicle =
                              \<lparr> gas_cost_estimate = round2 gasCost, savings = round2 0,
                                savings_percentage = round2 0 \<rparr>,
                            vs_optimal_charging =
                              \<lparr> optimal_cost = round2 optimal,
                                current_cost = round2 (totalCost chargingCosts),
                                potential_savings = round2 0 \<rparr> \<rparr>,
                        charging_strategy = strategy,
                        environmental_impact =
                          \<lparr> co2_saved_lbs = real_of_int (js_round (max 0 co2Saved * 10)) / 10,
                            trees_equivalent = js_round (max 0 treesEquivalent) \<rparr> \<rparr>)"

text \<open>The plan of \<open>estimateFutureTripCost\<close>, a template filled with numbers.\<close>

datatype plan =
    ChargeAtHome int
  | HomeThenSuperchargers int
  | NoChargingNeeded real

record future_trip =
  estimated_cost :: real
  charging_needed :: bool
  recommended_charge_level :: int
  charging_stops_needed :: int
  strategy :: plan

text \<open>The required charge with its 15% buffer, and what is missing from the current charge.\<close>

definition totalBatteryNeeded :: "real \<Rightarrow> real" where
  "totalBatteryNeeded distanceMiles =
     (let efficiencyMilesPerKwh = 4;
          energyNeeded = distanceMiles / efficiencyMilesPerKwh;
          batteryPercentNeeded = (energyNeeded / BATTERY_CAPACITY_KWH) * 100
      in batteryPercentNeeded * 1.15)"

definition chargeDeficit :: "real \<Rightarrow> real \<Rightarrow> real" where
  "chargeDeficit distanceMiles currentBatteryPercent =
     max 0 (totalBatteryNeeded distanceMiles - currentBatteryPercent)"

definition estimateFutureTripCost :: "real \<Rightarrow> real \<Rightarrow> real \<Rightarrow> real \<Rightarrow> future_trip" where
  "estimateFutureTripCost distanceMiles currentBatteryPercent homeRate superchargerRate =
     (let chargingNeeded = totalBatteryNeeded distanceMiles > currentBatteryPercent;
          deficit = chargeDeficit distanceMiles currentBatteryPercent;
          superchargerStopsNeeded = \<lceil>deficit / 50\<rceil>;
          (estimatedCost, plan) =
            (if chargingNeeded
             then (if deficit \<le> 60
                   then let kwhNeeded = (deficit / 100) * BATTERY_CAPACITY_KWH
                        in (kwhNeeded * homeRate,
                            ChargeAtHome (js_round (currentBatteryPercent + deficit)))
                   else let homeChargeKwh =
                              ((90 - currentBatteryPercent) / 100) * BATTERY_CAPACITY_KWH;
                            superchargerKwh =
                              ((deficit - (90 - currentBatteryPercent)) / 100) * BATTERY_CAPACITY_KWH
                        in (homeChargeKwh * homeRate + superchargerKwh * superchargerRate,
                            HomeThenSuperchargers superchargerStopsNeeded))
             else (0, NoChargingNeeded currentBatteryPercent))
      in \<lparr> estimated_cost = round2 estimatedCost,
           charging_needed = chargingNeeded,
           recommended_charge_level = min 100 (js_round (currentBatteryPercent + deficit)),
           charging_stops_needed = superchargerStopsNeeded,
           strategy = plan \<rparr>)"

section \<open>Notions used in the statements\<close>

text \<open>The gap between two drives in minutes, and whether \<open>mergeDrives\<close> merges them.\<close>

definition gap_minutes :: "TessieDrive \<Rightarrow> TessieDrive \<Rightarrow> real" where
  "gap_minutes prevDrive currentDrive =
     real_of_int (TessieDrive.started_at currentDrive - TessieDrive.ended_at prevDrive) / 60"

definition merges :: "TessieDrive \<Rightarrow> TessieDrive \<Rightarrow> bool" where
  "merges prevDrive currentDrive =
     shouldMergeDrives prevDrive currentDrive (gap_minutes prevDrive currentDrive)"

text \<open>The maximal runs of a list of drives in which each drive is merged with the next.\<close>

fun runs :: "TessieDrive list \<Rightarrow> TessieDrive list list" where
  "runs [] = []"
| "runs [x] = [[x]]"
| "runs (x # y # r) =
     (if merges x y
      then (case runs (y # r) of g # gs \<Rightarrow> (x # g) # gs | [] \<Rightarrow> [[x]])
      else [x] # runs (y # r))"

text \<open>
  The index of the group that holds position \<open>i\<close>, when consecutive groups of the given
  sizes are laid out one after the other.
\<close>

fun group_index :: "nat list \<Rightarrow> nat \<Rightarrow> nat" where
  "group_index [] i = 0"
| "group_index (n # ns) i = (if i < n then 0 else Suc (group_index ns (i - n)))"

text \<open>Drives for the witnesses and the counterexamples.\<close>

definition drive_a :: TessieDrive where
  "drive_a = \<lparr> TessieDrive.id = 1, started_at = 0, ended_at = 600,
       starting_location = ascii ''1 Main St, Springfield, IL, USA'',
       ending_location = ascii ''9 Oak Ave, Shelbyville, IL, USA'',
       starting_battery = 80, ending_battery = 70, odometer_distance = 10,
       average_speed = 40, max_speed = 60 \<rparr>"

definition drive_b :: TessieDrive where
  "drive_b = \<lparr> TessieDrive.id = 2, started_at = 900, ended_at = 1500,
       starting_location = ascii ''9 Oak Ave, Shelbyville, IL, USA'',
       ending_location = ascii ''1 Main St, Springfield, IL, USA'',
       starting_battery = 70, ending_battery = 60, odometer_distance = 10,
       average_speed = 40, max_speed = 60 \<rparr>"

definition drive_short :: TessieDrive where
  "drive_short = drive_a \<lparr> odometer_distance := 0.004 \<rparr>"

definition drive_c :: TessieDrive where
  "drive_c = drive_b \<lparr> TessieDrive.id := 3, started_at := 2400, ended_at := 3000 \<rparr>"

definition drive_tie :: TessieDrive where
  "drive_tie = drive_a \<lparr> TessieDrive.id := 4 \<rparr>"

text \<open>
  The energy of the detected charging gaps: for each consecutive pair whose battery gain
  exceeds 2 points, the gain as a share of the 75 kWh pack. A gap of under one hour with
  a gain above 30 points counts as supercharging, every other detected gap as home
  charging.
\<close>

fun superchargerGapKwh :: "TessieDrive list \<Rightarrow> real" where
  "superchargerGapKwh (prevDrive # currentDrive # rest) =
     (let batteryGained =
            TessieDrive.starting_battery currentDrive - TessieDrive.ending_battery prevDrive;
          gapHours =
            real_of_int (TessieDrive.started_at currentDrive - TessieDrive.ended_at prevDrive) / 3600
      in (if batteryGained > 2 \<and> gapHours < 1 \<and> batteryGained > 30
          then (batteryGained / 100) * 75 else 0)
         + superchargerGapKwh (currentDrive # rest))"
| "superchargerGapKwh drives = 0"

fun homeGapKwh :: "TessieDrive list \<Rightarrow> real" where
  "homeGapKwh (prevDrive # currentDrive # rest) =
     (let batteryGained =
            TessieDrive.starting_battery currentDrive - TessieDrive.ending_battery prevDrive;
          gapHours =
            real_of_int (TessieDrive.started_at currentDrive - TessieDrive.ended_at prevDrive) / 3600
      in (if batteryGained > 2 \<and> \<not> (gapHours < 1 \<and> batteryGained > 30)
          then (batteryGained / 100) * 75 else 0)
         + homeGapKwh (currentDrive # rest))"
| "homeGapKwh drives = 0"

fun detectedGapKwh :: "TessieDrive list \<Rightarrow> real" where
  "detectedGapKwh (prevDrive # currentDrive # rest) =
     (let batteryGained =
            TessieDrive.starting_battery currentDrive - TessieDrive.ending_battery prevDrive
      in (if batteryGained > 2 then (batteryGained / 100) * 75 else 0)
         + detectedGapKwh (currentDrive # rest))"
| "detectedGapKwh drives = 0"

definition drive_idle :: TessieDrive where
  "drive_idle = drive_a \<lparr> TessieDrive.starting_battery := 50, TessieDrive.ending_battery := 50 \<rparr>"

definition drive_parked :: TessieDrive where
  "drive_parked = drive_a \<lparr> odometer_distance := 0 \<rparr>"

definition drive_eff :: TessieDrive where
  "drive_eff = drive_a \<lparr> TessieDrive.ending_battery := 77 \<rparr>"

text \<open>An environment for the witnesses: every part of it answers as the empty analysis does.\<close>

definition efficiency_env0 :: efficiency_env where
  "efficiency_env0 =
     \<lparr> consumption_rate = exact_rate,
       calculateTrends = (\<lambda>dataPoints. trends (emptyAnalysis [])),
       analyzeEfficiencyFactors = (\<lambda>drives dataPoints. factors_analysis (emptyAnalysis [])),
       generateInsights = (\<lambda>dataPoints t f. []),
       generateRecommendations = (\<lambda>t f. []) \<rparr>"

definition drive_e1 :: TessieDrive where
  "drive_e1 = drive_a \<lparr> TessieDrive.starting_battery := 50, TessieDrive.ending_battery := 40 \<rparr>"

definition drive_e2 :: TessieDrive where
  "drive_e2 = drive_c \<lparr> TessieDrive.starting_battery := 52, TessieDrive.ending_battery := 42 \<rparr>"

text \<open>The route key of a drive, as \<open>groupDrivesByRoute\<close> computes it.\<close>

definition route_key :: "TessieDrive \<Rightarrow> jsstring" where
  "route_key drive =
     generateRouteId (TessieDrive.starting_location drive) (TessieDrive.ending_location drive)"

text \<open>The groups that are retained.\<close>

definition kept_groups :: "TessieDrive list \<Rightarrow> (jsstring \<times> TessieDrive list) list" where
  "kept_groups ds = filter (\<lambda>group. length (snd group) \<ge> MIN_ROUTE_FREQUENCY) (groupDrivesByRoute ds)"

definition drive_a2 :: TessieDrive where
  "drive_a2 = drive_a \<lparr> TessieDrive.id := 5, TessieDrive.started_at := 5000, TessieDrive.ended_at := 5600 \<rparr>"

text \<open>An environment for the witnesses of the clusterer: no time patterns, no advice.\<close>

definition commute_env0 :: commute_env where
  "commute_env0 =
     \<lparr> analyzeTimePatterns =
         (\<lambda>drives. \<lparr> morning_commute = \<lparr> count = 0, avg_time = ''N/A'' \<rparr>,
                      evening_commute = \<lparr> count = 0, avg_time = ''N/A'' \<rparr>,
                      weekend = \<lparr> count = 0, avg_time = ''N/A'' \<rparr> \<rparr>),
       calculateWeeklySummary = (\<lambda>drives commuteRoutes. weekly_summary (commute_emptyAnalysis [])),
       generateCommuteRecommendations = (\<lambda>commuteRoutes summary. []) \<rparr>"

definition drive_x :: TessieDrive where
  "drive_x = drive_a \<lparr> TessieDrive.id := 6, TessieDrive.starting_location := ascii ''Home'',
                       TessieDrive.ending_location := ascii ''Gym'' \<rparr>"

text \<open>
  The way back and the way there again, between other addresses of the same two places;
  one label has a no-break space after a comma.
\<close>

definition drive_back :: TessieDrive where
  "drive_back = drive_b \<lparr> TessieDrive.starting_location := ascii ''77 Elm Rd,Shelbyville ,IL,USA'',
                          TessieDrive.ending_location := ascii ''3 Hill Ln,  Springfield, IL, USA'' \<rparr>"

definition drive_again :: TessieDrive where
  "drive_again = drive_a2 \<lparr> TessieDrive.starting_location :=
                              ascii ''12 Lake Dr, Springfield,'' @ [0x00A0] @ ascii ''IL, USA'',
                            TessieDrive.ending_location := ascii ''4 Park Pl, Shelbyville, IL, US'' \<rparr>"

text \<open>A drive whose start time is beyond the last valid date.\<close>

definition drive_late :: TessieDrive where
  "drive_late = drive_x \<lparr> TessieDrive.started_at := 8640000000001 \<rparr>"

text \<open>
  Ten drives: three between Springfield and Shelbyville (there, back, there) and seven
  from home to the gym; ten drives with only two between Springfield and Shelbyville; ten
  drives of which one has no valid date; ten copies of one drive; five drives out of order.
\<close>

definition ten_drives :: "TessieDrive list" where
  "ten_drives = [drive_a, drive_back, drive_again, drive_x, drive_x, drive_x, drive_x,
                 drive_x, drive_x, drive_x]"

definition two_of_ten :: "TessieDrive list" where
  "two_of_ten = [drive_a, drive_back, drive_x, drive_x, drive_x, drive_x,
                 drive_x, drive_x, drive_x, drive_x]"

definition late_drives :: "TessieDrive list" where
  "late_drives = [drive_late, drive_x, drive_x, drive_x, drive_x,
                  drive_x, drive_x, drive_x, drive_x, drive_x]"

definition five_unsorted :: "TessieDrive list" where
  "five_unsorted = [drive_a2, drive_c, drive_b, drive_a, drive_x]"

definition same_start_drives :: "TessieDrive list" where
  "same_start_drives = [drive_a, drive_a, drive_a, drive_a, drive_a, drive_a, drive_a,
                        drive_a, drive_a, drive_a]"

section \<open>Proofs\<close>

subsection \<open>Sorting and rounding\<close>

lemma sort_key_Nil_iff: "sort_key f xs = [] \<longleftrightarrow> xs = []"
  by (metis length_sort length_0_conv)

subsection \<open>The groups of the trip segmenter\<close>

text \<open>
  \<open>mergeDrives\<close> returns one merged drive for each of the \<open>runs\<close> of the sorted
  drives, in their order.
\<close>

lemma runs_nonempty: "xs \<noteq> [] \<Longrightarrow> runs xs \<noteq> []"
  by (induction xs rule: runs.induct) (auto split: list.splits)

lemma runs_no_empty: "[] \<notin> set (runs xs)"
  by (induction xs rule: runs.induct) (auto split: list.splits)

lemma concat_runs: "concat (runs xs) = xs"
  by (induction xs rule: runs.induct) (auto split: list.splits)

lemma createMergedDrive_Inr:
  "g \<noteq> [] \<Longrightarrow> \<exists>m. createMergedDrive g = Inr m"
  by (simp add: createMergedDrive_def Let_def)

lemma mergeLoop_runs:
  "grp \<noteq> [] \<Longrightarrow> last grp = prev \<Longrightarrow>
   \<exists>ms. mergeLoop prev rest grp acc = Inr (acc @ ms) \<and>
        list_all2 (\<lambda>g m. createMergedDrive g = Inr m)
          ((butlast grp @ hd (runs (prev # rest))) # tl (runs (prev # rest))) ms"
proof (induction rest arbitrary: prev grp acc)
  case Nil
  then obtain m where "createMergedDrive grp = Inr m"
    using createMergedDrive_Inr by blast
  moreover have "butlast grp @ [prev] = grp"
    using Nil.prems by (metis append_butlast_last_id)
  ultimately show ?case using Nil by simp
next
  case (Cons cur rest)
  have ne: "runs (cur # rest) \<noteq> []" by (simp add: runs_nonempty)
  have bl: "butlast grp @ [prev] = grp"
    using Cons.prems by (metis append_butlast_last_id)
  show ?case
  proof (cases "merges prev cur")
    case True
    have "\<exists>ms. mergeLoop cur rest (grp @ [cur]) acc = Inr (acc @ ms) \<and>
        list_all2 (\<lambda>g m. createMergedDrive g = Inr m)
          ((butlast (grp @ [cur]) @ hd (runs (cur # rest))) # tl (runs (cur # rest))) ms"
      by (rule Cons.IH) simp_all
    then obtain ms where ms: "mergeLoop cur rest (grp @ [cur]) acc = Inr (acc @ ms)"
      "list_all2 (\<lambda>g m. createMergedDrive g = Inr m)
          ((grp @ hd (runs (cur # rest))) # tl (runs (cur # rest))) ms"
      by auto
    have r: "runs (prev # cur # rest) =
        (prev # hd (runs (cur # rest))) # tl (runs (cur # rest))"
      using True ne by (cases "runs (cur # rest)") auto
    have "butlast grp @ prev # hd (runs (cur # rest)) = (butlast grp @ [prev]) @ hd (runs (cur # rest))"
      by simp
    then have e1: "(butlast grp @ hd (runs (prev # cur # rest))) # tl (runs (prev # cur # rest)) =
        (grp @ hd (runs (cur # rest))) # tl (runs (cur # rest))"
      unfolding r bl by simp
    have m0: "mergeLoop prev (cur # rest) grp acc = Inr (acc @ ms)"
      using True ms(1) by (simp add: merges_def gap_minutes_def Let_def)
    from m0 ms(2) show ?thesis unfolding e1 by blast
  next
    case False
    obtain m where m: "createMergedDrive grp = Inr m"
      using createMergedDrive_Inr Cons.prems by blast
    have "\<exists>ms. mergeLoop cur rest [cur] (acc @ [m]) = Inr ((acc @ [m]) @ ms) \<and>
        list_all2 (\<lambda>g m. createMergedDrive g = Inr m)
          ((butlast [cur] @ hd (runs (cur # rest))) # tl (runs (cur # rest))) ms"
      by (rule Cons.IH) simp_all
    then obtain ms where ms: "mergeLoop cur rest [cur] (acc @ [m]) = Inr ((acc @ [m]) @ ms)"
      "list_all2 (\<lambda>g m. createMergedDrive g = Inr m) (runs (cur # rest)) ms"
      using ne by auto
    have m0: "mergeLoop prev (cur # rest) grp acc = Inr (acc @ (m # ms))"
      using False m ms(1) by (simp add: merges_def gap_minutes_def Let_def)
    have r: "runs (prev # cur # rest) = [prev] # runs (cur # rest)"
      using False by simp
    have e1: "(butlast grp @ hd (runs (prev # cur # rest))) # tl (runs (prev # cur # rest)) =
        grp # runs (cur # rest)"
      unfolding r using bl by simp
    have "list_all2 (\<lambda>g m. createMergedDrive g = Inr m) (grp # runs (cur # rest)) (m # ms)"
      using m ms(2) by simp
    with m0 show ?thesis unfolding e1 by blast
  qed
qed

lemma mergeDrives_eq:
  "mergeDrives ds = (if ds = [] then Inr [] else
      mergeLoop (hd (sort_key TessieDrive.started_at ds)) (tl (sort_key TessieDrive.started_at ds))
         [hd (sort_key TessieDrive.started_at ds)] [])"
  by (simp add: mergeDrives_def mergeDrives_h_def alloc_def sort_by_start_def Let_def)

lemma mergeDrives_runs:
  "\<exists>ms. mergeDrives ds = Inr ms \<and>
        list_all2 (\<lambda>g m. createMergedDrive g = Inr m) (runs (sort_key TessieDrive.started_at ds)) ms"
proof (cases "ds = []")
  case True
  then show ?thesis by (simp add: mergeDrives_eq)
next
  case False
  define s where "s = sort_key TessieDrive.started_at ds"
  have "length s = length ds" by (simp add: s_def)
  then have sne: "s \<noteq> []" using False by auto
  then obtain x xs where s: "s = x # xs" by (cases s) auto
  have "\<exists>ms. mergeLoop x xs [x] [] = Inr ([] @ ms) \<and>
        list_all2 (\<lambda>g m. createMergedDrive g = Inr m)
          ((butlast [x] @ hd (runs (x # xs))) # tl (runs (x # xs))) ms"
    by (rule mergeLoop_runs) simp_all
  moreover have "runs (x # xs) \<noteq> []" by (simp add: runs_nonempty)
  ultimately show ?thesis using False s by (simp add: mergeDrives_eq s_def[symmetric])
qed

lemma foldl_add_sum_list: "foldl (\<lambda>s x. s + f x) a xs = (a::real) + sum_list (map f xs)"
  by (induction xs arbitrary: a) simp_all

lemma createMergedDrive_fields:
  assumes "createMergedDrive g = Inr m"
  shows "g \<noteq> []"
    and "originalDriveIds m = map TessieDrive.id g"
    and "MergedDrive.started_at m = TessieDrive.started_at (hd g)"
    and "total_distance m = round2 (sum_list (map odometer_distance g))"
  using assms
  by (auto simp: createMergedDrive_def Let_def foldl_add_sum_list split: if_splits)

lemma round2_close: "\<bar>round2 x - x\<bar> \<le> 1 / 200"
proof -
  define n where "n = \<lfloor>x * 100 + 1 / 2\<rfloor>"
  have a: "real_of_int n \<le> x * 100 + 1 / 2" unfolding n_def by (rule of_int_floor_le)
  have b: "x * 100 + 1 / 2 < real_of_int n + 1" unfolding n_def by linarith
  have r: "round2 x = real_of_int n / 100" by (simp add: round2_def js_round_def n_def)
  have "real_of_int n / 100 - x \<le> 1 / 200" using a by linarith
  moreover have "- (1 / 200) \<le> real_of_int n / 100 - x" using b by linarith
  ultimately show ?thesis unfolding r by linarith
qed

lemma round2_hundredth: "round2 (real_of_int k / 100) = real_of_int k / 100"
  by (simp add: round2_def js_round_def)

lemma ids_of_groups:
  "list_all2 (\<lambda>g m. createMergedDrive g = Inr m) gs ms \<Longrightarrow>
   concat (map originalDriveIds ms) = map TessieDrive.id (concat gs)"
  by (induction rule: list_all2_induct) (auto dest: createMergedDrive_fields(2))

lemma sizes_of_groups:
  "list_all2 (\<lambda>g m. createMergedDrive g = Inr m) gs ms \<Longrightarrow>
   map (\<lambda>m. length (originalDriveIds m)) ms = map length gs"
  by (induction rule: list_all2_induct) (auto dest: createMergedDrive_fields(2))

lemma starts_of_groups:
  "list_all2 (\<lambda>g m. createMergedDrive g = Inr m) gs ms \<Longrightarrow>
   map MergedDrive.started_at ms = map (\<lambda>g. TessieDrive.started_at (hd g)) gs"
  by (induction rule: list_all2_induct) (auto dest: createMergedDrive_fields(3))

lemma distance_of_groups:
  "list_all2 (\<lambda>g m. createMergedDrive g = Inr m) gs ms \<Longrightarrow>
   \<bar>sum_list (map total_distance ms) - sum_list (map odometer_distance (concat gs))\<bar>
     \<le> real (length ms) / 200"
proof (induction rule: list_all2_induct)
  case Nil
  then show ?case by simp
next
  case (Cons g gs m ms)
  have "total_distance m = round2 (sum_list (map odometer_distance g))"
    using Cons.hyps(1) by (rule createMergedDrive_fields(4))
  then have "\<bar>total_distance m - sum_list (map odometer_distance g)\<bar> \<le> 1 / 200"
    using round2_close by simp
  moreover have "\<bar>sum_list (map total_distance ms) - sum_list (map odometer_distance (concat gs))\<bar>
     \<le> real (length ms) / 200" by (rule Cons.IH)
  ultimately have "\<bar>(total_distance m + sum_list (map total_distance ms))
      - (sum_list (map odometer_distance g) + sum_list (map odometer_distance (concat gs)))\<bar>
     \<le> 1 / 200 + real (length ms) / 200" by linarith
  then show ?case by (simp add: field_simps)
qed

lemma hundredths_sum:
  "\<forall>d\<in>set g. \<exists>k::int. f d = real_of_int k / 100 \<Longrightarrow>
   \<exists>k::int. sum_list (map f g) = real_of_int k / 100"
proof (induction g)
  case Nil
  show ?case by (intro exI[of _ 0]) simp
next
  case (Cons d g)
  then obtain k1 k2 :: int where "f d = real_of_int k1 / 100" "sum_list (map f g) = real_of_int k2 / 100"
    by auto
  then have "sum_list (map f (d # g)) = real_of_int (k1 + k2) / 100" by (simp add: field_simps)
  then show ?case by blast
qed

lemma distance_of_groups_exact:
  "list_all2 (\<lambda>g m. createMergedDrive g = Inr m) gs ms \<Longrightarrow>
   \<forall>d\<in>set (concat gs). \<exists>k::int. odometer_distance d = real_of_int k / 100 \<Longrightarrow>
   sum_list (map total_distance ms) = sum_list (map odometer_distance (concat gs))"
proof (induction rule: list_all2_induct)
  case Nil
  then show ?case by simp
next
  case (Cons g gs m ms)
  have "\<exists>k::int. sum_list (map odometer_distance g) = real_of_int k / 100"
    using Cons.prems by (intro hundredths_sum) auto
  then obtain k :: int where k: "sum_list (map odometer_distance g) = real_of_int k / 100" ..
  have "total_distance m = round2 (sum_list (map odometer_distance g))"
    using Cons.hyps(1) by (rule createMergedDrive_fields(4))
  then have "total_distance m = sum_list (map odometer_distance g)"
    unfolding k by (simp only: round2_hundredth)
  moreover have "sum_list (map total_distance ms) = sum_list (map odometer_distance (concat gs))"
    using Cons.IH Cons.prems by auto
  ultimately show ?case by simp
qed

lemma heads_in_list: "g \<in> set (runs xs) \<Longrightarrow> hd g \<in> set xs"
proof (induction xs arbitrary: g rule: runs.induct)
  case 1
  then show ?case by simp
next
  case (2 x)
  then show ?case by simp
next
  case (3 x y r)
  then show ?case by (auto split: if_splits list.splits)
qed

lemma sorted_run_heads:
  "sorted (map f xs) \<Longrightarrow> sorted (map (\<lambda>g. f (hd g)) (runs xs))"
proof (induction xs rule: runs.induct)
  case 1
  then show ?case by simp
next
  case (2 x)
  then show ?case by simp
next
  case (3 x y r)
  have "sorted (map f (y # r))" using "3.prems" by simp
  then have s: "sorted (map (\<lambda>g. f (hd g)) (runs (y # r)))"
    using "3.IH" by (cases "merges x y") blast+
  have le: "\<And>g. g \<in> set (runs (y # r)) \<Longrightarrow> f x \<le> f (hd g)"
    using heads_in_list[of _ "y # r"] "3.prems" by fastforce
  show ?case
  proof (cases "runs (y # r)")
    case Nil
    then show ?thesis by simp
  next
    case (Cons g gs)
    with s le show ?thesis by (cases "merges x y") auto
  qed
qed

lemma group_index_Suc: "group_index (Suc n # ns) (Suc i) = group_index (n # ns) i"
  by simp

lemma group_index_runs:
  "Suc i < length xs \<Longrightarrow>
   (group_index (map length (runs xs)) i = group_index (map length (runs xs)) (Suc i))
     = merges (xs ! i) (xs ! Suc i)"
proof (induction xs arbitrary: i rule: runs.induct)
  case 1
  then show ?case by simp
next
  case (2 x)
  then show ?case by simp
next
  case (3 x y r)
  obtain g gs where g: "runs (y # r) = g # gs" "g \<noteq> []"
    using runs_nonempty[of "y # r"] runs_no_empty[of "y # r"] by (cases "runs (y # r)") auto
  show ?case
  proof (cases i)
    case 0
    then show ?thesis using g by (cases g) auto
  next
    case (Suc j)
    then have j: "Suc j < length (y # r)" using "3.prems" by simp
    show ?thesis
    proof (cases "merges x y")
      case True
      have "(group_index (map length (runs (y # r))) j = group_index (map length (runs (y # r))) (Suc j))
              = merges ((y # r) ! j) ((y # r) ! Suc j)"
        using "3.IH"(1)[OF True j] .
      then show ?thesis using True g Suc by (simp del: group_index.simps add: group_index_Suc)
    next
      case False
      have "(group_index (map length (runs (y # r))) j = group_index (map length (runs (y # r))) (Suc j))
              = merges ((y # r) ! j) ((y # r) ! Suc j)"
        using "3.IH"(2)[OF False j] .
      then show ?thesis using False Suc by simp
    qed
  qed
qed

lemma sort_rev_distinct:
  "distinct (map f xs) \<Longrightarrow> sort_key f (rev xs) = sort_key f xs"
proof -
  assume d: "distinct (map f xs)"
  have "inj_on f (set xs)" using d by (simp add: distinct_map)
  then have "inj_on f (set (rev xs))" by simp
  moreover have "mset (rev xs) = mset (sort_key f xs)" by simp
  moreover have "sorted (map f (sort_key f xs))" by simp
  ultimately show ?thesis by (intro sort_key_inj_key_eq)
qed

lemma mergeDrives_h_fst: "fst (mergeDrives_h h a) = mergeDrives (h ! a)"
  by (simp add: mergeDrives_def mergeDrives_h_def alloc_def sort_by_start_def Let_def)

lemma mergeDrives_h_snd:
  "snd (mergeDrives_h h a) = (if h ! a = [] then h else h @ [sort_key TessieDrive.started_at (h ! a)])"
  by (simp add: mergeDrives_h_def alloc_def sort_by_start_def Let_def)

lemma mergeDrives_h_frame: "a < length h \<Longrightarrow> snd (mergeDrives_h h a) ! a = h ! a"
  by (simp add: mergeDrives_h_snd nth_append)

lemma hundredths: "x * 100 \<in> \<int> \<Longrightarrow> \<exists>k::int. (x::real) = real_of_int k / 100"
proof -
  assume "x * 100 \<in> \<int>"
  then obtain k :: int where "x * 100 = real_of_int k" by (rule Ints_cases)
  then have "x = real_of_int k / 100" by simp
  then show ?thesis ..
qed

subsection \<open>Claim C1: what \<open>mergeDrives\<close> returns\<close>

text \<open>
  Claim C1, as amended. For every list of drives \<open>mergeDrives\<close> returns, without an
  exception, merged drives such that: the identifiers in their \<open>originalDriveIds\<close>,
  taken together, are the identifiers of the input drives, each as often as it occurs in
  the input; the outputs are ordered by start time; each output's \<open>total_distance\<close> is
  rounded to two decimals, so the sum of the outputs' \<open>total_distance\<close> differs from the
  sum of the inputs' \<open>odometer_distance\<close> by at most 0.005 per output, and the two sums
  are equal when every input distance is a whole number of hundredths; the empty input
  yields the empty output.
\<close>

theorem mergeDrives_covers_inputs:
  "\<exists>out. mergeDrives ds = Inr out
     \<and> mset (concat (map originalDriveIds out)) = mset (map TessieDrive.id ds)
     \<and> sorted (map MergedDrive.started_at out)
     \<and> \<bar>sum_list (map total_distance out) - sum_list (map odometer_distance ds)\<bar>
           \<le> real (length out) / 200
     \<and> ((\<forall>d\<in>set ds. odometer_distance d * 100 \<in> \<int>) \<longrightarrow>
          sum_list (map total_distance out) = sum_list (map odometer_distance ds))
     \<and> (ds = [] \<longrightarrow> out = [])"
proof -
  define s where "s = sort_key TessieDrive.started_at ds"
  obtain out where out: "mergeDrives ds = Inr out"
    and rel: "list_all2 (\<lambda>g m. createMergedDrive g = Inr m) (runs s) out"
    using mergeDrives_runs[of ds] unfolding s_def by blast
  have ms: "mset s = mset ds" by (simp add: s_def)
  have "concat (map originalDriveIds out) = map TessieDrive.id s"
    using ids_of_groups[OF rel] by (simp add: concat_runs)
  then have c1: "mset (concat (map originalDriveIds out)) = mset (map TessieDrive.id ds)"
    using ms by (metis mset_map)
  have "sorted (map TessieDrive.started_at s)" by (simp add: s_def)
  then have c2: "sorted (map MergedDrive.started_at out)"
    unfolding starts_of_groups[OF rel] by (rule sorted_run_heads)
  have sums: "sum_list (map odometer_distance s) = sum_list (map odometer_distance ds)"
    using ms by (metis mset_map sum_mset_sum_list)
  have c3: "\<bar>sum_list (map total_distance out) - sum_list (map odometer_distance ds)\<bar>
           \<le> real (length out) / 200"
    using distance_of_groups[OF rel] by (simp add: concat_runs sums)
  have c4: "sum_list (map total_distance out) = sum_list (map odometer_distance ds)"
    if h: "\<forall>d\<in>set ds. odometer_distance d * 100 \<in> \<int>"
  proof -
    have "set s = set ds" using ms by (rule mset_eq_setD)
    then have "\<forall>d\<in>set (concat (runs s)). \<exists>k::int. odometer_distance d = real_of_int k / 100"
      using h hundredths unfolding concat_runs by blast
    from distance_of_groups_exact[OF rel this] show ?thesis by (simp add: concat_runs sums)
  qed
  have c5: "out = []" if "ds = []"
    using that out by (simp add: mergeDrives_eq)
  from out c1 c2 c3 c4 c5 show ?thesis by blast
qed

text \<open>
  Witness for C1: two drives given out of order, five minutes apart, with distances in
  whole hundredths.
\<close>

theorem mergeDrives_covers_inputs_witness:
  "odometer_distance drive_b * 100 \<in> \<int> \<and> odometer_distance drive_a * 100 \<in> \<int> \<and>
   (\<exists>out. mergeDrives [drive_b, drive_a] = Inr out
      \<and> mset (concat (map originalDriveIds out)) = mset [2, 1]
      \<and> sum_list (map total_distance out) = 20)"
  using mergeDrives_covers_inputs[of "[drive_b, drive_a]"]
  by (auto simp: drive_a_def drive_b_def)

text \<open>
  Counterexample to C1 as stated: a single drive of 0.004 miles. Its merged drive has
  \<open>total_distance\<close> 0, so the sums of distances differ.
\<close>

theorem mergeDrives_distance_counterexample:
  "\<not> (\<exists>out. mergeDrives [drive_short] = Inr out
         \<and> sum_list (map total_distance out) = sum_list (map odometer_distance [drive_short]))"
  by (simp add: mergeDrives_eq createMergedDrive_def Let_def drive_short_def drive_a_def
        round2_def js_round_def)

subsection \<open>Claim C2: which consecutive drives share a merged drive\<close>

lemma merges_iff:
  "merges p c = (gap_minutes p c < 7 \<or> TessieDrive.starting_battery c - TessieDrive.ending_battery p > 5)"
  by (simp add: merges_def shouldMergeDrives_def Let_def)

lemma mergeDrives_pair_merged:
  assumes "TessieDrive.started_at d1 \<le> TessieDrive.started_at d2" "merges d1 d2"
  shows "\<exists>m. mergeDrives [d1, d2] = Inr [m]
           \<and> originalDriveIds m = [TessieDrive.id d1, TessieDrive.id d2]"
proof -
  have s: "sort_key TessieDrive.started_at [d1, d2] = [d1, d2]" using assms(1) by simp
  obtain ms where ms: "mergeDrives [d1, d2] = Inr ms"
    and rel: "list_all2 (\<lambda>g m. createMergedDrive g = Inr m) (runs [d1, d2]) ms"
    using mergeDrives_runs[of "[d1, d2]"] unfolding s by blast
  have "runs [d1, d2] = [[d1, d2]]" using assms(2) by simp
  with rel obtain m where m: "ms = [m]" "createMergedDrive [d1, d2] = Inr m"
    by (auto simp: list_all2_Cons1)
  from createMergedDrive_fields(2)[OF m(2)] ms m(1) show ?thesis by simp
qed

lemma mergeDrives_pair_split:
  assumes "TessieDrive.started_at d1 \<le> TessieDrive.started_at d2" "\<not> merges d1 d2"
  shows "\<exists>m1 m2. mergeDrives [d1, d2] = Inr [m1, m2]
           \<and> originalDriveIds m1 = [TessieDrive.id d1] \<and> originalDriveIds m2 = [TessieDrive.id d2]"
proof -
  have s: "sort_key TessieDrive.started_at [d1, d2] = [d1, d2]" using assms(1) by simp
  obtain ms where ms: "mergeDrives [d1, d2] = Inr ms"
    and rel: "list_all2 (\<lambda>g m. createMergedDrive g = Inr m) (runs [d1, d2]) ms"
    using mergeDrives_runs[of "[d1, d2]"] unfolding s by blast
  have "runs [d1, d2] = [[d1], [d2]]" using assms(2) by simp
  with rel obtain m1 m2 where m: "ms = [m1, m2]" "createMergedDrive [d1] = Inr m1"
      "createMergedDrive [d2] = Inr m2"
    by (auto simp: list_all2_Cons1)
  from createMergedDrive_fields(2)[OF m(2)] createMergedDrive_fields(2)[OF m(3)] ms m(1)
  show ?thesis by simp
qed



subsection \<open>Claim C8: calling \<open>mergeDrives\<close> again, and on the reversed input\<close>

text \<open>
  Claim C8, as amended. When no two drives share a start time, \<open>mergeDrives\<close> returns
  the same on the reversed input as on the input. A second call on the same array returns
  what the first call returned.
\<close>

theorem mergeDrives_reversed_input:
  "(distinct (map TessieDrive.started_at ds) \<longrightarrow> mergeDrives (rev ds) = mergeDrives ds)
   \<and> (a < length h \<longrightarrow>
        fst (mergeDrives_h (snd (mergeDrives_h h a)) a) = fst (mergeDrives_h h a))"
proof (intro conjI impI)
  assume "distinct (map TessieDrive.started_at ds)"
  then have "sort_key TessieDrive.started_at (rev ds) = sort_key TessieDrive.started_at ds"
    by (rule sort_rev_distinct)
  then show "mergeDrives (rev ds) = mergeDrives ds" by (simp add: mergeDrives_eq)
next
  assume "a < length h"
  then show "fst (mergeDrives_h (snd (mergeDrives_h h a)) a) = fst (mergeDrives_h h a)"
    by (simp add: mergeDrives_h_fst mergeDrives_h_frame)
qed

text \<open>Witness for C8: three drives with three start times; an array of two drives.\<close>

theorem mergeDrives_reversed_input_witness:
  "distinct (map TessieDrive.started_at [drive_a, drive_b, drive_c])
   \<and> mergeDrives (rev [drive_a, drive_b, drive_c]) = mergeDrives [drive_a, drive_b, drive_c]
   \<and> (0::nat) < length [[drive_b, drive_a]]
   \<and> fst (mergeDrives_h (snd (mergeDrives_h [[drive_b, drive_a]] 0)) 0)
       = fst (mergeDrives_h [[drive_b, drive_a]] 0)"
  using mergeDrives_reversed_input[of "[drive_a, drive_b, drive_c]" 0 "[[drive_b, drive_a]]"]
  by (simp add: drive_a_def drive_b_def drive_c_def)

text \<open>
  Counterexample to C8 as stated: two drives with the same start time and different
  identifiers. The sort is stable, so the reversed input yields the identifiers in the
  other order.
\<close>

theorem mergeDrives_reversed_ties_counterexample:
  "mergeDrives (rev [drive_a, drive_tie]) \<noteq> mergeDrives [drive_a, drive_tie]"
proof
  assume e: "mergeDrives (rev [drive_a, drive_tie]) = mergeDrives [drive_a, drive_tie]"
  have m: "merges drive_a drive_tie" "merges drive_tie drive_a"
    by (simp_all add: merges_iff gap_minutes_def drive_tie_def drive_a_def)
  have le: "TessieDrive.started_at drive_a \<le> TessieDrive.started_at drive_tie"
      "TessieDrive.started_at drive_tie \<le> TessieDrive.started_at drive_a"
    by (simp_all add: drive_tie_def)
  obtain m1 where m1: "mergeDrives [drive_a, drive_tie] = Inr [m1]"
     "originalDriveIds m1 = [TessieDrive.id drive_a, TessieDrive.id drive_tie]"
    using mergeDrives_pair_merged[OF le(1) m(1)] by blast
  obtain m2 where m2: "mergeDrives [drive_tie, drive_a] = Inr [m2]"
     "originalDriveIds m2 = [TessieDrive.id drive_tie, TessieDrive.id drive_a]"
    using mergeDrives_pair_merged[OF le(2) m(2)] by blast
  have r: "rev [drive_a, drive_tie] = [drive_tie, drive_a]" by simp
  have "Inr [m2] = (Inr [m1] :: error + MergedDrive list)"
    using e unfolding r m1(1) m2(1) .
  then have "m2 = m1" by (simp only: sum.inject list.inject)
  then have "originalDriveIds m2 = originalDriveIds m1" by (rule arg_cong)
  then have "TessieDrive.id drive_tie = TessieDrive.id drive_a"
    by (metis list.inject m1(2) m2(2))
  moreover have "TessieDrive.id drive_tie = 4" by (simp add: drive_tie_def)
  moreover have "TessieDrive.id drive_a = 1" by (simp add: drive_a_def)
  ultimately show False by linarith
qed

subsection \<open>Claim C9: fewer than five drives\<close>

text \<open>
  Claim C9. On fewer than 5 drives \<open>analyzeEfficiencyTrends\<close> returns, without an
  exception, an analysis whose numeric fields are all zero, whose three trends are stable
  with confidence low, and whose only recommendation is the text that says the data is
  insufficient.
\<close>

theorem analyzeEfficiencyTrends_insufficient_data:
  "length drives < 5 \<Longrightarrow>
   \<exists>r. analyzeEfficiencyTrends env drives = Inr r
     \<and> current_period.avg_efficiency (current_period r) = 0
     \<and> current_period.total_miles (current_period r) = 0
     \<and> current_period.total_drives (current_period r) = 0
     \<and> best (efficiency_range (current_period r)) = Finite 0
     \<and> worst (efficiency_range (current_period r)) = Finite 0
     \<and> (\<forall>t \<in> {weekly (trends r), monthly (trends r), seasonal (trends r)}.
            trend_percentage t = Finite 0
          \<and> EfficiencyTrend.avg_efficiency t = 0
          \<and> EfficiencyTrend.best_efficiency t = 0
          \<and> EfficiencyTrend.worst_efficiency t = 0
          \<and> trend_direction t = Stable
          \<and> confidence t = Low)
     \<and> hot_weather_penalty (weather_impact (factors_analysis r)) = 0
     \<and> cold_weather_penalty (weather_impact (factors_analysis r)) = 0
     \<and> highway_efficiency (speed_impact (factors_analysis r)) = 0
     \<and> city_efficiency (speed_impact (factors_analysis r)) = 0
     \<and> EfficiencyAnalysis.recommendations r =
           [''Insufficient driving data for trend analysis (minimum 5 drives required)'']
     \<and> insights r = []"
  by (simp add: analyzeEfficiencyTrends_def analyzeEfficiencyTrends_h_def emptyAnalysis_def Let_def)

text \<open>Witness for C9: four drives.\<close>

theorem analyzeEfficiencyTrends_insufficient_data_witness:
  "length [drive_a, drive_b, drive_c, drive_tie] < 5
   \<and> (\<exists>r. analyzeEfficiencyTrends efficiency_env0 [drive_a, drive_b, drive_c, drive_tie] = Inr r
         \<and> current_period.total_drives (current_period r) = 0
         \<and> confidence (weekly (trends r)) = Low
         \<and> EfficiencyAnalysis.recommendations r =
              [''Insufficient driving data for trend analysis (minimum 5 drives required)''])"
  using analyzeEfficiencyTrends_insufficient_data[of "[drive_a, drive_b, drive_c, drive_tie]"
          efficiency_env0]
  by auto

subsection \<open>Claim C5: a trip of 300 miles at 65 percent\<close>

lemma totalBatteryNeeded_300: "totalBatteryNeeded 300 = 115"
  by (simp add: totalBatteryNeeded_def BATTERY_CAPACITY_KWH_def)

lemma chargeDeficit_300_65: "chargeDeficit 300 65 = 50"
  by (simp add: chargeDeficit_def totalBatteryNeeded_300)

text \<open>
  Claim C5, as amended. For 300 miles and a current charge of 65% at the default rates the
  required charge with its 15% buffer is 115%, the deficit is 50 points (it does not
  exceed 60), the plan is to charge at home, \<open>charging_needed\<close> is true and
  \<open>charging_stops_needed\<close> is 1.
\<close>

theorem estimateFutureTripCost_300_65:
  "totalBatteryNeeded 300 = 115
   \<and> chargeDeficit 300 65 = 50
   \<and> charging_needed (estimateFutureTripCost 300 65 DEFAULT_HOME_RATE DEFAULT_SUPERCHARGER_RATE)
   \<and> charging_stops_needed
        (estimateFutureTripCost 300 65 DEFAULT_HOME_RATE DEFAULT_SUPERCHARGER_RATE) = 1
   \<and> strategy (estimateFutureTripCost 300 65 DEFAULT_HOME_RATE DEFAULT_SUPERCHARGER_RATE)
        = ChargeAtHome 115"
  by (simp add: estimateFutureTripCost_def totalBatteryNeeded_300 chargeDeficit_300_65 Let_def
        js_round_def)

text \<open>Counterexample to C5 as stated: the deficit is 50 points, which does not exceed 60.\<close>

theorem estimateFutureTripCost_300_65_counterexample:
  "\<not> (chargeDeficit 300 65 > 60
       \<and> charging_stops_needed
            (estimateFutureTripCost 300 65 DEFAULT_HOME_RATE DEFAULT_SUPERCHARGER_RATE) \<ge> 1
       \<and> charging_needed
            (estimateFutureTripCost 300 65 DEFAULT_HOME_RATE DEFAULT_SUPERCHARGER_RATE))"
  by (simp add: chargeDeficit_300_65)

subsection \<open>Claim C6: the data points that are kept\<close>

lemma toDataPoint_efficiency:
  "efficiency_kwh_per_100mi (toDataPoint rate d) = efficiency_of rate d"
  by (simp add: toDataPoint_def Let_def)




subsection \<open>Claim C4: the energy in the two cost buckets\<close>

text \<open>
  The loop of \<open>estimateChargingCosts\<close> prices the energy of the detected gaps, each gap
  at the rate of its kind.
\<close>

lemma gapCosts_kwh:
  "gapCosts drives homeRate superchargerRate (a, b) =
     (a + homeGapKwh drives * homeRate, b + superchargerGapKwh drives * superchargerRate)"
proof (induction drives arbitrary: a b rule: induct_list012)
  case 1
  show ?case by simp
next
  case (2 x)
  show ?case by simp
next
  case (3 p c rest)
  show ?case
    by (simp add: "3.IH"(2) Let_def BATTERY_CAPACITY_KWH_def algebra_simps)
qed

lemma detectedGapKwh_split:
  "detectedGapKwh drives = homeGapKwh drives + superchargerGapKwh drives"
  by (induction drives rule: induct_list012) (simp_all add: Let_def)

lemma exact_detected_kwh:
  assumes "homeRate \<noteq> 0" "superchargerRate \<noteq> 0"
  shows "detected_kwh exact_arith drives homeRate superchargerRate = Some (detectedGapKwh drives)"
  using assms
  by (simp add: exact_arith_def gapCosts_kwh[of drives homeRate superchargerRate 0 0]
        js_div_def detectedGapKwh_split)

lemma estimateChargingCosts_eq:
  "estimateChargingCosts arith drives totalEnergyKwh homeRate superchargerRate =
     \<lparr> electricityCost =
         (homeGapKwh drives
            + (case detected_kwh arith drives homeRate superchargerRate of
                 Some detected \<Rightarrow>
                   if detected < totalEnergyKwh * 0.5 then totalEnergyKwh - detected else 0
               | None \<Rightarrow> 0)) * homeRate,
       chargingStopsCost = superchargerGapKwh drives * superchargerRate,
       totalCost =
         (homeGapKwh drives
            + (case detected_kwh arith drives homeRate superchargerRate of
                 Some detected \<Rightarrow>
                   if detected < totalEnergyKwh * 0.5 then totalEnergyKwh - detected else 0
               | None \<Rightarrow> 0)) * homeRate
         + superchargerGapKwh drives * superchargerRate \<rparr>"
  by (simp add: estimateChargingCosts_def gapCosts_kwh[of drives homeRate superchargerRate 0 0]
        Let_def algebra_simps split: option.splits)

lemma calculateTripCost_costs:
  assumes "drives \<noteq> []"
  shows "\<exists>used r. calculateTotalBatteryUsed (sort_key TessieDrive.started_at drives) = Inr used
          \<and> calculateTripCost arith drives homeRate superchargerRate gasPrice = Inr r
          \<and> \<bar>electricity_cost (cost_breakdown r)
               - electricityCost (estimateChargingCosts arith (sort_key TessieDrive.started_at drives)
                   (energy_kwh arith used) homeRate superchargerRate)\<bar> \<le> 1 / 200
          \<and> \<bar>charging_stops_cost (cost_breakdown r)
               - chargingStopsCost (estimateChargingCosts arith (sort_key TessieDrive.started_at drives)
                   (energy_kwh arith used) homeRate superchargerRate)\<bar> \<le> 1 / 200"
proof -
  have ne: "sort_key TessieDrive.started_at drives \<noteq> []"
    using assms by (simp add: sort_key_Nil_iff)
  then obtain used where u: "calculateTotalBatteryUsed (sort_key TessieDrive.started_at drives) = Inr used"
    by (simp add: calculateTotalBatteryUsed_def)
  have c1: "\<bar>round2 x - x\<bar> \<le> 1 / 200" for x
    by (rule round2_close)
  show ?thesis using assms
    by (simp add: calculateTripCost_def u Let_def c1 del: divide_le_eq_numeral1 le_divide_eq_numeral1)
qed




subsection \<open>The groups of the route clusterer\<close>

text \<open>
  \<open>groupDrivesByRoute\<close> returns, under pairwise different keys, the drives of each
  key in their input order.
\<close>

lemma push_route_keys:
  "map fst (push_route es k d) = (if k \<in> fst ` set es then map fst es else map fst es @ [k])"
  by (induction es k d rule: push_route.induct) auto

lemma push_route_distinct:
  "distinct (map fst es) \<Longrightarrow> distinct (map fst (push_route es k d))"
  by (auto simp: push_route_keys)

lemma push_route_map_of:
  "map_of (push_route es k d) =
     (map_of es)(k \<mapsto> (case map_of es k of None \<Rightarrow> [d] | Some g \<Rightarrow> g @ [d]))"
  by (induction es k d rule: push_route.induct) (auto simp: fun_eq_iff)

lemma group_fold:
  "distinct (map fst acc) \<Longrightarrow>
   distinct (map fst (foldl (\<lambda>routes drive. push_route routes (route_key drive) drive) acc ds))
   \<and> (\<forall>k. map_of (foldl (\<lambda>routes drive. push_route routes (route_key drive) drive) acc ds) k =
          (case map_of acc k of
             None \<Rightarrow> (if filter (\<lambda>d. route_key d = k) ds = [] then None
                       else Some (filter (\<lambda>d. route_key d = k) ds))
           | Some g \<Rightarrow> Some (g @ filter (\<lambda>d. route_key d = k) ds)))"
proof (induction ds arbitrary: acc)
  case Nil
  then show ?case by (auto split: option.splits)
next
  case (Cons d ds)
  have "distinct (map fst (push_route acc (route_key d) d))"
    using Cons.prems by (rule push_route_distinct)
  from Cons.IH[OF this] show ?case
    by (auto simp: push_route_map_of split: option.splits)
qed

lemma groupDrivesByRoute_eq:
  "groupDrivesByRoute ds = foldl (\<lambda>routes drive. push_route routes (route_key drive) drive) [] ds"
  by (simp add: groupDrivesByRoute_def route_key_def)

lemma groupDrivesByRoute_distinct: "distinct (map fst (groupDrivesByRoute ds))"
  using group_fold[of "[]" ds] by (simp add: groupDrivesByRoute_eq)

lemma groupDrivesByRoute_member:
  "(k, g) \<in> set (groupDrivesByRoute ds) \<longleftrightarrow> g = filter (\<lambda>d. route_key d = k) ds \<and> g \<noteq> []"
proof -
  have "map_of (groupDrivesByRoute ds) k =
      (if filter (\<lambda>d. route_key d = k) ds = [] then None
       else Some (filter (\<lambda>d. route_key d = k) ds))"
    using group_fold[of "[]" ds] by (simp add: groupDrivesByRoute_eq)
  moreover have "(k, g) \<in> set (groupDrivesByRoute ds) \<longleftrightarrow> map_of (groupDrivesByRoute ds) k = Some g"
    using groupDrivesByRoute_distinct by (simp add: map_of_eq_Some_iff)
  ultimately show ?thesis by auto
qed

subsection \<open>The weekly frequency and the routes\<close>

lemma sorted_hd_le_last:
  "sorted (map f xs) \<Longrightarrow> xs \<noteq> [] \<Longrightarrow> f (hd xs) \<le> (f (last xs) :: int)"
proof (induction xs)
  case Nil
  then show ?case by simp
next
  case (Cons x xs)
  then show ?case by (cases xs) auto
qed

lemma round2_nonneg: "0 \<le> x \<Longrightarrow> 0 \<le> round2 x"
proof -
  assume "0 \<le> x"
  then have "0 \<le> \<lfloor>x * 100 + 1 / 2\<rfloor>" by simp
  then show ?thesis by (simp add: round2_def js_round_def)
qed

lemma calculateWeeklyFrequency_finite:
  "\<exists>f. fst (calculateWeeklyFrequency drives) = Finite f \<and> 0 \<le> f"
proof (cases "drives = []")
  case True
  then show ?thesis by (simp add: calculateWeeklyFrequency_def)
next
  case False
  define s where "s = sort_key TessieDrive.started_at drives"
  have sne: "s \<noteq> []" using False by (simp add: s_def sort_key_Nil_iff)
  have "sorted (map TessieDrive.started_at s)" by (simp add: s_def)
  then have le: "TessieDrive.started_at (hd s) \<le> TessieDrive.started_at (last s)"
    using sne by (rule sorted_hd_le_last)
  define w where "w = real_of_int (TessieDrive.started_at (last s) - TessieDrive.started_at (hd s))
                / (7 * 24 * 3600)"
  have w0: "0 \<le> w" using le by (simp add: w_def)
  have eq: "fst (calculateWeeklyFrequency drives) =
      (if w = 0 then Finite (real (length drives)) else js_round2 (js_div (real (length drives)) w))"
    using False by (simp add: calculateWeeklyFrequency_def Let_def s_def w_def)
  show ?thesis
  proof (cases "w = 0")
    case True
    then show ?thesis by (simp add: eq)
  next
    case False
    then have "0 \<le> real (length drives) / w" using w0 by simp
    then have "0 \<le> round2 (real (length drives) / w)" by (rule round2_nonneg)
    then show ?thesis using False by (simp add: eq js_div_def)
  qed
qed

lemma calculateWeeklyFrequency_same_start:
  assumes "drives \<noteq> []" "\<forall>d\<in>set drives. TessieDrive.started_at d = t"
  shows "fst (calculateWeeklyFrequency drives) = Finite (real (length drives))"
proof -
  define s where "s = sort_key TessieDrive.started_at drives"
  have sne: "s \<noteq> []" using assms(1) by (simp add: s_def sort_key_Nil_iff)
  have "hd s \<in> set s" "last s \<in> set s" using sne by simp_all
  moreover have "set s = set drives" by (simp add: s_def)
  ultimately have "hd s \<in> set drives" "last s \<in> set drives" by blast+
  then have "TessieDrive.started_at (last s) = t" "TessieDrive.started_at (hd s) = t"
    using assms(2) by blast+
  then have w: "real_of_int (TessieDrive.started_at (last s) - TessieDrive.started_at (hd s))
                / (7 * 24 * 3600) = 0" by simp
  have "fst (calculateWeeklyFrequency drives) =
      (if real_of_int (TessieDrive.started_at (last s) - TessieDrive.started_at (hd s))
                / (7 * 24 * 3600) = 0
       then Finite (real (length drives))
       else js_round2 (js_div (real (length drives))
              (real_of_int (TessieDrive.started_at (last s) - TessieDrive.started_at (hd s))
                / (7 * 24 * 3600))))"
    using assms(1) unfolding calculateWeeklyFrequency_def Let_def s_def by simp
  then show ?thesis unfolding w by simp
qed

lemma calculateWeeklyFrequency_sorted:
  "fst (calculateWeeklyFrequency (sort_key TessieDrive.started_at drives))
     = fst (calculateWeeklyFrequency drives)"
proof -
  have "sort_key TessieDrive.started_at (sort_key TessieDrive.started_at drives)
      = sort_key TessieDrive.started_at drives"
    by (rule sort_key_id_if_sorted) simp
  then show ?thesis
    by (simp add: calculateWeeklyFrequency_def Let_def sort_key_Nil_iff)
qed

lemma calculateEfficiencyTrend_array:
  "snd (calculateEfficiencyTrend drives) =
     (if length drives < 6 then drives else sort_key TessieDrive.started_at drives)"
  by (simp add: calculateEfficiencyTrend_def Let_def)

lemma analyzeRoute_ok:
  assumes "snd g \<noteq> []"
  shows "\<exists>r arr. analyzeRoute env g = Inr (r, arr)
           \<and> CommuteRoute.id r = fst g
           \<and> frequency r = fst (calculateWeeklyFrequency (snd g))"
proof -
  define d1 where "d1 = snd (calculateEfficiencyTrend (snd g))"
  have d1: "d1 = snd g \<or> d1 = sort_key TessieDrive.started_at (snd g)"
    by (simp add: d1_def calculateEfficiencyTrend_array)
  then have ne: "d1 \<noteq> []" using assms by (metis sort_key_Nil_iff)
  have f: "fst (calculateWeeklyFrequency d1) = fst (calculateWeeklyFrequency (snd g))"
    using d1 by (auto simp: calculateWeeklyFrequency_sorted)
  obtain tr where tr: "calculateEfficiencyTrend (snd g) = (tr, d1)"
    by (cases "calculateEfficiencyTrend (snd g)") (simp add: d1_def)
  obtain fr d2 where fr: "calculateWeeklyFrequency d1 = (fr, d2)"
    by (cases "calculateWeeklyFrequency d1")
  show ?thesis using ne f
    by (simp add: analyzeRoute_def Let_def tr fr)
qed

lemma analyzeRoutes_ok:
  "\<forall>g\<in>set gs. snd g \<noteq> [] \<Longrightarrow>
   \<exists>rs. analyzeRoutes env gs = Inr rs
      \<and> list_all2 (\<lambda>g r. CommuteRoute.id (fst r) = fst g
                        \<and> frequency (fst r) = fst (calculateWeeklyFrequency (snd g))) gs rs"
proof (induction gs)
  case Nil
  then show ?case by simp
next
  case (Cons g gs)
  obtain r arr where r: "analyzeRoute env g = Inr (r, arr)" "CommuteRoute.id r = fst g"
      "frequency r = fst (calculateWeeklyFrequency (snd g))"
    using analyzeRoute_ok[of g env] Cons.prems by auto
  obtain rs where rs: "analyzeRoutes env gs = Inr rs"
     "list_all2 (\<lambda>g r. CommuteRoute.id (fst r) = fst g
                        \<and> frequency (fst r) = fst (calculateWeeklyFrequency (snd g))) gs rs"
    using Cons by auto
  have "analyzeRoutes env (g # gs) = Inr ((r, arr) # rs)" by (simp add: r(1) rs(1))
  moreover have "list_all2 (\<lambda>g r. CommuteRoute.id (fst r) = fst g
                        \<and> frequency (fst r) = fst (calculateWeeklyFrequency (snd g)))
       (g # gs) ((r, arr) # rs)"
    using r(2,3) rs(2) by simp
  ultimately show ?case by blast
qed

lemma kept_groups_nonempty: "\<forall>g\<in>set (kept_groups ds). snd g \<noteq> []"
  by (auto simp: kept_groups_def MIN_ROUTE_FREQUENCY_def)

lemma analyzeCommutes_few:
  "length ds < 10 \<Longrightarrow>
   analyzeCommutes env ds
     = Inr (commute_emptyAnalysis ''Not enough driving data to detect commute patterns'')"
  by (simp add: analyzeCommutes_def analyzeCommutes_h_def)

lemma analyzeCommutes_routes:
  assumes "10 \<le> length ds" "\<forall>d\<in>set ds. valid_date (TessieDrive.started_at d)"
  shows "\<exists>a. analyzeCommutes env ds = Inr a
          \<and> routes_detected a = length (routes a)
          \<and> list_all2 (\<lambda>g r. CommuteRoute.id r = fst g
                        \<and> frequency r = fst (calculateWeeklyFrequency (snd g)))
               (kept_groups ds) (routes a)"
proof -
  obtain rs where rs: "analyzeRoutes env (kept_groups ds) = Inr rs"
     "list_all2 (\<lambda>g r. CommuteRoute.id (fst r) = fst g
                        \<and> frequency (fst r) = fst (calculateWeeklyFrequency (snd g)))
        (kept_groups ds) rs"
    using analyzeRoutes_ok[OF kept_groups_nonempty] by blast
  have l: "list_all2 (\<lambda>g r. CommuteRoute.id r = fst g
                        \<and> frequency r = fst (calculateWeeklyFrequency (snd g)))
               (kept_groups ds) (map fst rs)"
    using rs(2) by (simp add: list_all2_map2)
  have k: "filter (\<lambda>group. MIN_ROUTE_FREQUENCY \<le> length (snd group)) (groupDrivesByRoute ds)
      = kept_groups ds" by (simp add: kept_groups_def)
  have v: "list_all (\<lambda>drive. valid_date (TessieDrive.started_at drive)) ds"
    using assms(2) by (simp add: list_all_iff)
  show ?thesis using assms(1) l
    by (simp add: analyzeCommutes_def analyzeCommutes_h_def Let_def k rs(1) v)
qed

text \<open>On 10 drives or more of which one has no valid date, the weekly summary raises.\<close>

lemma analyzeCommutes_invalid_date:
  assumes "10 \<le> length ds" "\<not> (\<forall>d\<in>set ds. valid_date (TessieDrive.started_at d))"
  shows "analyzeCommutes env ds = Inl TypeError"
proof -
  obtain rs where rs: "analyzeRoutes env (kept_groups ds) = Inr rs"
    using analyzeRoutes_ok[OF kept_groups_nonempty] by blast
  have k: "filter (\<lambda>group. MIN_ROUTE_FREQUENCY \<le> length (snd group)) (groupDrivesByRoute ds)
      = kept_groups ds" by (simp add: kept_groups_def)
  have v: "\<not> list_all (\<lambda>drive. valid_date (TessieDrive.started_at drive)) ds"
    using assms(2) by (simp add: list_all_iff)
  show ?thesis using assms(1)
    by (simp add: analyzeCommutes_def analyzeCommutes_h_def Let_def k rs(1) v)
qed

lemma str_less_asym: "str_less a b \<Longrightarrow> \<not> str_less b a"
  by (induction a b rule: str_less.induct) (auto split: if_splits)

lemma str_less_total: "\<not> str_less a b \<Longrightarrow> \<not> str_less b a \<Longrightarrow> a = b"
  by (induction a b rule: str_less.induct) (auto split: if_splits)

lemma str_less_lexord: "str_less a b \<longleftrightarrow> (a, b) \<in> lexord {(x, y). x < y}"
  by (induction a b rule: str_less.induct) auto

lemma generateRouteId_eq:
  "generateRouteId s e =
     (if str_less (normalizeLocation e) (normalizeLocation s)
      then normalizeLocation e @ route_sep @ normalizeLocation s
      else normalizeLocation s @ route_sep @ normalizeLocation e)"
  by (simp add: generateRouteId_def sort_pair_def Let_def)

lemma sort_pair_commute: "sort_pair a b = sort_pair b a"
  using str_less_asym[of a b] str_less_asym[of b a] str_less_total[of a b]
  by (auto simp: sort_pair_def)

lemma generateRouteId_commute: "generateRouteId s e = generateRouteId e s"
  by (simp add: generateRouteId_def Let_def sort_pair_commute)

lemma kept_groups_member:
  "(k, g) \<in> set (kept_groups ds) \<longleftrightarrow>
     g = filter (\<lambda>d. route_key d = k) ds \<and> 3 \<le> length g"
  by (auto simp: kept_groups_def groupDrivesByRoute_member MIN_ROUTE_FREQUENCY_def)

lemma kept_groups_distinct: "distinct (map fst (kept_groups ds))"
  unfolding kept_groups_def using groupDrivesByRoute_distinct by (rule distinct_map_filter)

lemma kept_groups_keys:
  "k \<in> fst ` set (kept_groups ds) \<longleftrightarrow> 3 \<le> length (filter (\<lambda>d. route_key d = k) ds)"
proof
  assume "k \<in> fst ` set (kept_groups ds)"
  then obtain g where "(k, g) \<in> set (kept_groups ds)" by auto
  then show "3 \<le> length (filter (\<lambda>d. route_key d = k) ds)"
    by (auto simp: kept_groups_member)
next
  assume "3 \<le> length (filter (\<lambda>d. route_key d = k) ds)"
  then have "(k, filter (\<lambda>d. route_key d = k) ds) \<in> set (kept_groups ds)"
    by (simp add: kept_groups_member)
  then show "k \<in> fst ` set (kept_groups ds)" by force
qed

lemma list_all2_right:
  "list_all2 P xs ys \<Longrightarrow> y \<in> set ys \<Longrightarrow> \<exists>x\<in>set xs. P x y"
  by (induction rule: list_all2_induct) auto

lemma analyzeCommutes_retained:
  assumes "10 \<le> length ds" "\<forall>d\<in>set ds. valid_date (TessieDrive.started_at d)"
  shows "\<exists>a. analyzeCommutes env ds = Inr a
          \<and> routes_detected a = length (routes a)
          \<and> distinct (map CommuteRoute.id (routes a))
          \<and> (\<forall>k. k \<in> CommuteRoute.id ` set (routes a)
                 \<longleftrightarrow> 3 \<le> length (filter (\<lambda>d. route_key d = k) ds))
          \<and> (\<forall>r\<in>set (routes a).
                frequency r = fst (calculateWeeklyFrequency
                                     (filter (\<lambda>d. route_key d = CommuteRoute.id r) ds)))"
proof -
  obtain a where a: "analyzeCommutes env ds = Inr a" "routes_detected a = length (routes a)"
    and rel: "list_all2 (\<lambda>g r. CommuteRoute.id r = fst g
                        \<and> frequency r = fst (calculateWeeklyFrequency (snd g)))
               (kept_groups ds) (routes a)"
    using analyzeCommutes_routes[OF assms, of env] by blast
  have ids: "map CommuteRoute.id (routes a) = map fst (kept_groups ds)"
    using rel by (induction rule: list_all2_induct) auto
  have d: "distinct (map CommuteRoute.id (routes a))"
    unfolding ids by (rule kept_groups_distinct)
  have "CommuteRoute.id ` set (routes a) = fst ` set (kept_groups ds)"
    using ids by (metis set_map)
  then have keys: "\<forall>k. k \<in> CommuteRoute.id ` set (routes a)
                 \<longleftrightarrow> 3 \<le> length (filter (\<lambda>d. route_key d = k) ds)"
    by (simp add: kept_groups_keys)
  have fr: "frequency r = fst (calculateWeeklyFrequency
                                     (filter (\<lambda>d. route_key d = CommuteRoute.id r) ds))"
    if r_in: "r \<in> set (routes a)" for r
  proof -
    obtain g where g: "g \<in> set (kept_groups ds)" "CommuteRoute.id r = fst g"
        "frequency r = fst (calculateWeeklyFrequency (snd g))"
      using list_all2_right[OF rel r_in] by blast
    have "(fst g, snd g) \<in> set (kept_groups ds)" using g(1) by simp
    then have "snd g = filter (\<lambda>d. route_key d = fst g) ds"
      by (simp only: kept_groups_member)
    then show ?thesis using g(2,3) by simp
  qed
  from a d keys fr show ?thesis by blast
qed

lemma count_distinct_ids:
  "distinct (map f xs) \<Longrightarrow> length (filter (\<lambda>r. f r = k) xs) = (if k \<in> f ` set xs then 1 else 0)"
  by (induction xs) auto

subsection \<open>Claim C3: which routes are retained\<close>

text \<open>
  Claim C3, as amended. The route key of a drive is made of its two normalized endpoint
  labels, the one that is first in the order of the code units first, with the separator
  between them. So it does not depend on the direction, nor on anything of the labels but
  their normalized forms. A label with at least three comma-separated segments is reduced
  to its third-last and second-last segments, trimmed; a shorter label is kept whole. On
  fewer than 10 drives \<open>analyzeCommutes\<close> returns no route. On 10 or more drives whose
  start times are valid dates it returns, without an exception, exactly one route for
  every key that at least 3 drives have and none for any other key (so none for a key of
  only 2 drives); the \<open>frequency\<close> of a route is the weekly frequency of its member
  drives. On 10 or more drives of which one has a start time that is not a valid date it
  raises a TypeError.
\<close>

theorem analyzeCommutes_route_retention:
  "route_key d =
     (if str_less (normalizeLocation (TessieDrive.ending_location d))
                  (normalizeLocation (TessieDrive.starting_location d))
      then normalizeLocation (TessieDrive.ending_location d) @ route_sep
             @ normalizeLocation (TessieDrive.starting_location d)
      else normalizeLocation (TessieDrive.starting_location d) @ route_sep
             @ normalizeLocation (TessieDrive.ending_location d))
   \<and> (str_less x y \<longleftrightarrow> (x, y) \<in> lexord {(c, c'). c < c'})
   \<and> generateRouteId s e = generateRouteId e s
   \<and> (normalizeLocation s' = normalizeLocation s \<and> normalizeLocation e' = normalizeLocation e \<longrightarrow>
        generateRouteId s' e' = generateRouteId s e \<and> generateRouteId e' s' = generateRouteId s e)
   \<and> normalizeLocation loc =
       (if 3 \<le> length (split_on 0x002C loc)
        then trim (split_on 0x002C loc ! (length (split_on 0x002C loc) - 3)) @ [0x002C, 0x0020]
               @ trim (split_on 0x002C loc ! (length (split_on 0x002C loc) - 2))
        else loc)
   \<and> (length ds < 10 \<longrightarrow>
        (\<exists>a. analyzeCommutes env ds = Inr a \<and> routes a = [] \<and> routes_detected a = 0))
   \<and> (10 \<le> length ds \<and> (\<forall>d\<in>set ds. valid_date (TessieDrive.started_at d)) \<longrightarrow>
        (\<exists>a. analyzeCommutes env ds = Inr a
          \<and> routes_detected a = length (routes a)
          \<and> (\<forall>k. length (filter (\<lambda>r. CommuteRoute.id r = k) (routes a))
                 = (if 3 \<le> length (filter (\<lambda>d. route_key d = k) ds) then 1 else 0))
          \<and> (\<forall>r\<in>set (routes a).
                frequency r = fst (calculateWeeklyFrequency
                                     (filter (\<lambda>d. route_key d = CommuteRoute.id r) ds)))))
   \<and> (10 \<le> length ds \<and> \<not> (\<forall>d\<in>set ds. valid_date (TessieDrive.started_at d)) \<longrightarrow>
        analyzeCommutes env ds = Inl TypeError)"
proof (intro conjI impI)
  show "route_key d =
     (if str_less (normalizeLocation (TessieDrive.ending_location d))
                  (normalizeLocation (TessieDrive.starting_location d))
      then normalizeLocation (TessieDrive.ending_location d) @ route_sep
             @ normalizeLocation (TessieDrive.starting_location d)
      else normalizeLocation (TessieDrive.starting_location d) @ route_sep
             @ normalizeLocation (TessieDrive.ending_location d))"
    unfolding route_key_def by (rule generateRouteId_eq)
next
  show "str_less x y \<longleftrightarrow> (x, y) \<in> lexord {(c, c'). c < c'}" by (rule str_less_lexord)
next
  show "generateRouteId s e = generateRouteId e s" by (rule generateRouteId_commute)
next
  assume n: "normalizeLocation s' = normalizeLocation s \<and> normalizeLocation e' = normalizeLocation e"
  then show "generateRouteId s' e' = generateRouteId s e"
    by (simp add: generateRouteId_def)
  have "generateRouteId e' s' = generateRouteId e s"
    using n by (simp add: generateRouteId_def)
  then show "generateRouteId e' s' = generateRouteId s e"
    by (simp add: generateRouteId_commute[of e s])
next
  show "normalizeLocation loc =
       (if 3 \<le> length (split_on 0x002C loc)
        then trim (split_on 0x002C loc ! (length (split_on 0x002C loc) - 3)) @ [0x002C, 0x0020]
               @ trim (split_on 0x002C loc ! (length (split_on 0x002C loc) - 2))
        else loc)"
    by (simp add: normalizeLocation_def Let_def)
next
  assume "length ds < 10"
  then show "\<exists>a. analyzeCommutes env ds = Inr a \<and> routes a = [] \<and> routes_detected a = 0"
    by (simp add: analyzeCommutes_few commute_emptyAnalysis_def)
next
  assume "10 \<le> length ds \<and> (\<forall>d\<in>set ds. valid_date (TessieDrive.started_at d))"
  then obtain a where a: "analyzeCommutes env ds = Inr a"
      "routes_detected a = length (routes a)"
      "distinct (map CommuteRoute.id (routes a))"
      "\<forall>k. k \<in> CommuteRoute.id ` set (routes a)
                 \<longleftrightarrow> 3 \<le> length (filter (\<lambda>d. route_key d = k) ds)"
      "\<forall>r\<in>set (routes a).
                frequency r = fst (calculateWeeklyFrequency
                                     (filter (\<lambda>d. route_key d = CommuteRoute.id r) ds))"
    using analyzeCommutes_retained[of ds env] by blast
  have "\<forall>k. length (filter (\<lambda>r. CommuteRoute.id r = k) (routes a))
                 = (if 3 \<le> length (filter (\<lambda>d. route_key d = k) ds) then 1 else 0)"
    using count_distinct_ids[OF a(3)] a(4) by simp
  with a(1,2,5) show "\<exists>a. analyzeCommutes env ds = Inr a
          \<and> routes_detected a = length (routes a)
          \<and> (\<forall>k. length (filter (\<lambda>r. CommuteRoute.id r = k) (routes a))
                 = (if 3 \<le> length (filter (\<lambda>d. route_key d = k) ds) then 1 else 0))
          \<and> (\<forall>r\<in>set (routes a).
                frequency r = fst (calculateWeeklyFrequency
                                     (filter (\<lambda>d. route_key d = CommuteRoute.id r) ds)))"
    by blast
next
  assume "10 \<le> length ds \<and> \<not> (\<forall>d\<in>set ds. valid_date (TessieDrive.started_at d))"
  then show "analyzeCommutes env ds = Inl TypeError"
    using analyzeCommutes_invalid_date[of ds env] by blast
qed

lemma route_key_examples:
  "route_key drive_back = route_key drive_a" "route_key drive_again = route_key drive_a"
  "route_key drive_x \<noteq> route_key drive_a" "route_key drive_b = route_key drive_a"
  "route_key drive_a2 = route_key drive_a"
  by code_simp+

lemma label_examples:
  "TessieDrive.starting_location drive_again \<noteq> TessieDrive.starting_location drive_a"
  "TessieDrive.starting_location drive_back \<noteq> TessieDrive.ending_location drive_a"
  "normalizeLocation (TessieDrive.starting_location drive_again) = ascii ''Springfield, IL''"
  "normalizeLocation (TessieDrive.ending_location drive_back) = ascii ''Springfield, IL''"
  "normalizeLocation (TessieDrive.starting_location drive_a) = ascii ''Springfield, IL''"
  "normalizeLocation (TessieDrive.ending_location drive_again) = ascii ''Shelbyville, IL''"
  "normalizeLocation (TessieDrive.starting_location drive_back) = ascii ''Shelbyville, IL''"
  "normalizeLocation (TessieDrive.ending_location drive_a) = ascii ''Shelbyville, IL''"
  "str_less (ascii ''Shelbyville, IL'') (ascii ''Springfield, IL'')"
  by code_simp+

lemma valid_examples:
  "list_all (\<lambda>d. valid_date (TessieDrive.started_at d)) ten_drives"
  "list_all (\<lambda>d. valid_date (TessieDrive.started_at d)) two_of_ten"
  "\<not> list_all (\<lambda>d. valid_date (TessieDrive.started_at d)) late_drives"
  by (simp_all add: ten_drives_def two_of_ten_def late_drives_def valid_date_def drive_a_def
        drive_b_def drive_c_def drive_a2_def drive_x_def drive_back_def drive_again_def
        drive_late_def)

text \<open>
  Witness for C3: among \<open>ten_drives\<close> three drives run between the same two places, in
  both directions and between different addresses, and yield one route under the key of
  the two places; the two such drives of \<open>two_of_ten\<close> yield none, and two drives alone
  yield none; \<open>late_drives\<close>, with a start time that is not a valid date, raise.
\<close>

theorem analyzeCommutes_route_retention_witness:
  "10 \<le> length ten_drives
   \<and> list_all (\<lambda>d. valid_date (TessieDrive.started_at d)) ten_drives
   \<and> TessieDrive.starting_location drive_again \<noteq> TessieDrive.starting_location drive_a
   \<and> normalizeLocation (TessieDrive.starting_location drive_again)
       = normalizeLocation (TessieDrive.starting_location drive_a)
   \<and> normalizeLocation (TessieDrive.ending_location drive_again)
       = normalizeLocation (TessieDrive.ending_location drive_a)
   \<and> route_key drive_again = route_key drive_a
   \<and> route_key drive_back = route_key drive_a
   \<and> route_key drive_a = ascii ''Shelbyville, IL'' @ route_sep @ ascii ''Springfield, IL''
   \<and> (\<exists>a. analyzeCommutes commute_env0 ten_drives = Inr a
         \<and> length (filter (\<lambda>r. CommuteRoute.id r = route_key drive_a) (routes a)) = 1)
   \<and> 10 \<le> length two_of_ten
   \<and> list_all (\<lambda>d. valid_date (TessieDrive.started_at d)) two_of_ten
   \<and> (\<exists>a. analyzeCommutes commute_env0 two_of_ten = Inr a
         \<and> length (filter (\<lambda>r. CommuteRoute.id r = route_key drive_a) (routes a)) = 0)
   \<and> length [drive_a, drive_back] < 10
   \<and> (\<exists>a. analyzeCommutes commute_env0 [drive_a, drive_back] = Inr a \<and> routes a = [])
   \<and> 10 \<le> length late_drives
   \<and> \<not> list_all (\<lambda>d. valid_date (TessieDrive.started_at d)) late_drives
   \<and> analyzeCommutes commute_env0 late_drives = Inl TypeError"
proof -
  note inst = analyzeCommutes_route_retention[where env = commute_env0 and d = drive_a
      and s = "TessieDrive.starting_location drive_a" and e = "TessieDrive.ending_location drive_a"
      and s' = "TessieDrive.starting_location drive_again"
      and e' = "TessieDrive.ending_location drive_again"
      and x = "[]" and y = "[]" and loc = "[]"]
  have t: "10 \<le> length ten_drives" "10 \<le> length two_of_ten" "10 \<le> length late_drives"
    by (simp_all add: ten_drives_def two_of_ten_def late_drives_def)
  have v: "\<forall>d\<in>set ten_drives. valid_date (TessieDrive.started_at d)"
      "\<forall>d\<in>set two_of_ten. valid_date (TessieDrive.started_at d)"
      "\<not> (\<forall>d\<in>set late_drives. valid_date (TessieDrive.started_at d))"
    using valid_examples by (simp_all add: list_all_iff)
  have f: "filter (\<lambda>d. route_key d = route_key drive_a) ten_drives
             = [drive_a, drive_back, drive_again]"
      "filter (\<lambda>d. route_key d = route_key drive_a) two_of_ten = [drive_a, drive_back]"
    by (simp_all add: ten_drives_def two_of_ten_def route_key_examples)
  have k: "route_key drive_a = ascii ''Shelbyville, IL'' @ route_sep @ ascii ''Springfield, IL''"
    using inst[where ds = "[]"] by (simp add: label_examples)
  have n: "normalizeLocation (TessieDrive.starting_location drive_again)
             = normalizeLocation (TessieDrive.starting_location drive_a)"
      "normalizeLocation (TessieDrive.ending_location drive_again)
             = normalizeLocation (TessieDrive.ending_location drive_a)"
    by (simp_all add: label_examples)
  have ka: "route_key drive_again = route_key drive_a"
    using inst[where ds = "[]"] n unfolding route_key_def by blast
  obtain a where a: "analyzeCommutes commute_env0 ten_drives = Inr a"
     "\<forall>k. length (filter (\<lambda>r. CommuteRoute.id r = k) (routes a))
                 = (if 3 \<le> length (filter (\<lambda>d. route_key d = k) ten_drives) then 1 else 0)"
    using inst[where ds = ten_drives] t(1) v(1) by blast
  have r1: "length (filter (\<lambda>r. CommuteRoute.id r = route_key drive_a) (routes a)) = 1"
    using a(2)[rule_format, of "route_key drive_a"] by (simp add: f)
  obtain b where b: "analyzeCommutes commute_env0 two_of_ten = Inr b"
     "\<forall>k. length (filter (\<lambda>r. CommuteRoute.id r = k) (routes b))
                 = (if 3 \<le> length (filter (\<lambda>d. route_key d = k) two_of_ten) then 1 else 0)"
    using inst[where ds = two_of_ten] t(2) v(2) by blast
  have r0: "length (filter (\<lambda>r. CommuteRoute.id r = route_key drive_a) (routes b)) = 0"
    using b(2)[rule_format, of "route_key drive_a"] by (simp add: f)
  have two: "\<exists>a. analyzeCommutes commute_env0 [drive_a, drive_back] = Inr a \<and> routes a = []"
    using inst[where ds = "[drive_a, drive_back]"] by auto
  have late: "analyzeCommutes commute_env0 late_drives = Inl TypeError"
    using inst[where ds = late_drives] t(3) v(3) by blast
  have c1: "\<exists>a. analyzeCommutes commute_env0 ten_drives = Inr a
         \<and> length (filter (\<lambda>r. CommuteRoute.id r = route_key drive_a) (routes a)) = 1"
    using a(1) r1 by blast
  have c2: "\<exists>a. analyzeCommutes commute_env0 two_of_ten = Inr a
         \<and> length (filter (\<lambda>r. CommuteRoute.id r = route_key drive_a) (routes a)) = 0"
    using b(1) r0 by blast
  have l2: "length [drive_a, drive_back] < 10" by simp
  show ?thesis
    using t valid_examples label_examples(1) n ka route_key_examples(1) k c1 c2 l2 two late
    by - (intro conjI; assumption)
qed

text \<open>
  Counterexample to C3 as stated: a label of three segments keeps its first two, not its
  last two; and the three drives there, back and there, given alone, yield no route,
  because fewer than 10 drives are never analysed.
\<close>

theorem analyzeCommutes_three_drives_counterexample:
  "normalizeLocation (ascii ''1 Main St, Springfield, IL'') = ascii ''1 Main St, Springfield''
   \<and> route_key drive_back = route_key drive_a \<and> route_key drive_again = route_key drive_a
   \<and> (\<exists>a. analyzeCommutes commute_env0 [drive_a, drive_back, drive_again] = Inr a
         \<and> routes a = [])"
proof -
  have "normalizeLocation (ascii ''1 Main St, Springfield, IL'') = ascii ''1 Main St, Springfield''"
    by code_simp
  then show ?thesis
    by (simp add: route_key_examples analyzeCommutes_few commute_emptyAnalysis_def)
qed

subsection \<open>Claim C10: the weekly frequency over a zero time span\<close>

text \<open>
  Claim C10. When all drives of a non-empty group share their start time,
  \<open>calculateWeeklyFrequency\<close> returns the number of drives; it always returns a finite,
  non-negative number. So does every route that \<open>analyzeCommutes\<close> returns, and a route
  whose member drives share their start time reports the number of its members.
\<close>

theorem calculateWeeklyFrequency_zero_span:
  "(drives \<noteq> [] \<and> (\<forall>d\<in>set drives. TessieDrive.started_at d = t) \<longrightarrow>
      fst (calculateWeeklyFrequency drives) = Finite (real (length drives)))
   \<and> (\<exists>f. fst (calculateWeeklyFrequency drives) = Finite f \<and> 0 \<le> f)
   \<and> (\<forall>a. analyzeCommutes env ds = Inr a \<longrightarrow>
        (\<forall>r\<in>set (routes a).
           (\<exists>f. frequency r = Finite f \<and> 0 \<le> f)
         \<and> ((\<forall>d\<in>set ds. route_key d = CommuteRoute.id r \<longrightarrow> TessieDrive.started_at d = t) \<longrightarrow>
              frequency r =
                Finite (real (length (filter (\<lambda>d. route_key d = CommuteRoute.id r) ds))))))"
proof (intro conjI impI allI ballI)
  assume "drives \<noteq> [] \<and> (\<forall>d\<in>set drives. TessieDrive.started_at d = t)"
  then show "fst (calculateWeeklyFrequency drives) = Finite (real (length drives))"
    using calculateWeeklyFrequency_same_start[of drives t] by blast
next
  show "\<exists>f. fst (calculateWeeklyFrequency drives) = Finite f \<and> 0 \<le> f"
    by (rule calculateWeeklyFrequency_finite)
next
  fix a r
  assume a: "analyzeCommutes env ds = Inr a" and r: "r \<in> set (routes a)"
  have long: "10 \<le> length ds"
  proof (rule ccontr)
    assume "\<not> 10 \<le> length ds"
    then have "analyzeCommutes env ds
        = Inr (commute_emptyAnalysis ''Not enough driving data to detect commute patterns'')"
      by (simp add: analyzeCommutes_few)
    with a have "routes a = []" by (auto simp: commute_emptyAnalysis_def)
    with r show False by simp
  qed
  have valid: "\<forall>d\<in>set ds. valid_date (TessieDrive.started_at d)"
  proof (rule ccontr)
    assume "\<not> (\<forall>d\<in>set ds. valid_date (TessieDrive.started_at d))"
    with long have "analyzeCommutes env ds = Inl TypeError"
      by (rule analyzeCommutes_invalid_date)
    with a show False by simp
  qed
  obtain a' where a': "analyzeCommutes env ds = Inr a'"
      "\<forall>k. k \<in> CommuteRoute.id ` set (routes a')
                 \<longleftrightarrow> 3 \<le> length (filter (\<lambda>d. route_key d = k) ds)"
      "\<forall>r\<in>set (routes a').
                frequency r = fst (calculateWeeklyFrequency
                                     (filter (\<lambda>d. route_key d = CommuteRoute.id r) ds))"
    using analyzeCommutes_retained[OF long valid, of env] by blast
  have aa: "a' = a" using a a'(1) by simp
  define g where "g = filter (\<lambda>d. route_key d = CommuteRoute.id r) ds"
  have fr: "frequency r = fst (calculateWeeklyFrequency g)"
    using a'(3) r unfolding aa g_def by blast
  show "\<exists>f. frequency r = Finite f \<and> 0 \<le> f"
    unfolding fr by (rule calculateWeeklyFrequency_finite)
  have "3 \<le> length g" using a'(2) r unfolding aa g_def by blast
  then have gne: "g \<noteq> []" by auto
  assume "\<forall>d\<in>set ds. route_key d = CommuteRoute.id r \<longrightarrow> TessieDrive.started_at d = t"
  then have "\<forall>d\<in>set g. TessieDrive.started_at d = t" by (simp add: g_def)
  with gne have "fst (calculateWeeklyFrequency g) = Finite (real (length g))"
    by (rule calculateWeeklyFrequency_same_start)
  then show "frequency r =
                Finite (real (length (filter (\<lambda>d. route_key d = CommuteRoute.id r) ds)))"
    unfolding fr g_def .
qed

text \<open>
  Witness for C10: three drives that start at the same time, and ten copies of one drive,
  which form one route of frequency 10.
\<close>

theorem calculateWeeklyFrequency_zero_span_witness:
  "[drive_a, drive_tie, drive_x] \<noteq> []
   \<and> TessieDrive.started_at drive_a = 0 \<and> TessieDrive.started_at drive_tie = 0
   \<and> TessieDrive.started_at drive_x = 0
   \<and> fst (calculateWeeklyFrequency [drive_a, drive_tie, drive_x]) = Finite 3
   \<and> (\<exists>a. analyzeCommutes commute_env0 same_start_drives = Inr a
         \<and> (\<exists>r\<in>set (routes a). frequency r = Finite 10))"
proof -
  have s: "TessieDrive.started_at drive_a = 0" "TessieDrive.started_at drive_tie = 0"
      "TessieDrive.started_at drive_x = 0"
    by (simp_all add: drive_a_def drive_tie_def drive_x_def)
  have f3: "fst (calculateWeeklyFrequency [drive_a, drive_tie, drive_x]) = Finite 3"
    using calculateWeeklyFrequency_zero_span[of "[drive_a, drive_tie, drive_x]" 0] s by simp
  have long: "10 \<le> length same_start_drives" by (simp add: same_start_drives_def)
  have valid: "\<forall>d\<in>set same_start_drives. valid_date (TessieDrive.started_at d)"
    by (simp add: same_start_drives_def drive_a_def valid_date_def)
  have flt: "filter (\<lambda>d. route_key d = route_key drive_a) same_start_drives = same_start_drives"
    by (simp add: same_start_drives_def)
  obtain a where a: "analyzeCommutes commute_env0 same_start_drives = Inr a"
      "\<forall>k. k \<in> CommuteRoute.id ` set (routes a)
                 \<longleftrightarrow> 3 \<le> length (filter (\<lambda>d. route_key d = k) same_start_drives)"
    using analyzeCommutes_retained[OF long valid, of commute_env0] by blast
  have "route_key drive_a \<in> CommuteRoute.id ` set (routes a)"
    using a(2) by (simp add: flt) (simp add: same_start_drives_def)
  then obtain r where r: "r \<in> set (routes a)" "CommuteRoute.id r = route_key drive_a" by auto
  have "\<forall>d\<in>set same_start_drives. route_key d = CommuteRoute.id r \<longrightarrow> TessieDrive.started_at d = 0"
    by (simp add: same_start_drives_def s)
  then have "frequency r =
       Finite (real (length (filter (\<lambda>d. route_key d = CommuteRoute.id r) same_start_drives)))"
    using calculateWeeklyFrequency_zero_span[of "[]" 0 commute_env0 same_start_drives] a(1) r(1)
    by blast
  then have "frequency r = Finite 10"
    unfolding r(2) flt by (simp add: same_start_drives_def)
  with a(1) r(1) f3 s show ?thesis by auto
qed

subsection \<open>Claim C7: the array of the caller\<close>

text \<open>
  \<open>mergeDrives\<close> and \<open>analyzeCommutes\<close> leave the array they are given as it was
  (\<open>mergeDrives_h_frame\<close>, \<open>analyzeCommutes_h_frame\<close>);
  \<open>analyzeEfficiencyTrends\<close> sorts it in place when it has 5 drives or more.
\<close>

lemma analyzeCommutes_h_frame:
  "a < length h \<Longrightarrow> snd (analyzeCommutes_h env h a) ! a = h ! a"
  by (auto simp: analyzeCommutes_h_def Let_def nth_append split: sum.splits)

lemma analyzeEfficiencyTrends_h_array:
  "a < length h \<Longrightarrow>
   snd (analyzeEfficiencyTrends_h env h a) ! a =
     (if length (h ! a) < 5 then h ! a else sort_key TessieDrive.started_at (h ! a))"
  by (auto simp: analyzeEfficiencyTrends_h_def sort_by_start_def Let_def split: sum.splits)

text \<open>
  Claim C7 fails for \<open>analyzeEfficiencyTrends\<close>: on five drives given out of order, the
  array of the caller is sorted by start time after the call, so it is not what it was.
  The same array is unchanged after \<open>mergeDrives\<close> and after \<open>analyzeCommutes\<close>.
\<close>

theorem analyzeEfficiencyTrends_sorts_input:
  "snd (analyzeEfficiencyTrends_h efficiency_env0 [five_unsorted] 0) ! 0
     = [drive_a, drive_x, drive_b, drive_c, drive_a2]
   \<and> [drive_a, drive_x, drive_b, drive_c, drive_a2] \<noteq> five_unsorted
   \<and> snd (mergeDrives_h [five_unsorted] 0) ! 0 = five_unsorted
   \<and> snd (analyzeCommutes_h commute_env0 [five_unsorted] 0) ! 0 = five_unsorted"
proof -
  have s: "sort_key TessieDrive.started_at five_unsorted = [drive_a, drive_x, drive_b, drive_c, drive_a2]"
    by (simp add: five_unsorted_def drive_a_def drive_b_def drive_c_def drive_a2_def drive_x_def)
  have "snd (analyzeEfficiencyTrends_h efficiency_env0 [five_unsorted] 0) ! 0
     = [drive_a, drive_x, drive_b, drive_c, drive_a2]"
    using analyzeEfficiencyTrends_h_array[of 0 "[five_unsorted]" efficiency_env0]
    by (simp add: s) (simp add: five_unsorted_def)
  moreover have "[drive_a, drive_x, drive_b, drive_c, drive_a2] \<noteq> five_unsorted"
    by (simp add: five_unsorted_def drive_a_def drive_a2_def)
  moreover have "snd (mergeDrives_h [five_unsorted] 0) ! 0 = five_unsorted"
    using mergeDrives_h_frame[of 0 "[five_unsorted]"] by simp
  moreover have "snd (analyzeCommutes_h commute_env0 [five_unsorted] 0) ! 0 = five_unsorted"
    using analyzeCommutes_h_frame[of 0 "[five_unsorted]" commute_env0] by simp
  ultimately show ?thesis by blast
qed

end
